theory Spec2Isabelle
  imports Main "HOL-Library.Char_ord" "HOL-Library.List_Lexorder" "HOL-Library.Multiset"
    "HOL-Library.Sublist"
begin

section \<open>The indexing and upload orchestrator\<close>

text \<open>
  The orchestrator (package main) clones every repository of a static corpus, indexes
  every revision and uploads every index.  It touches the outside world through
  \<^verbatim>\<open>os.Stat\<close>, \<^verbatim>\<open>ioutil.TempDir\<close>, \<^verbatim>\<open>os.RemoveAll\<close>, \<^verbatim>\<open>filepath.Abs\<close> and subprocesses.
  The model threads a world through every function and takes what the operating system
  answers from an oracle record, so that every error branch of the source is a branch
  of the model.
\<close>

subsection \<open>Errors\<close>

datatype error =
    ENOENT string \<comment> \<open>the path does not exist; \<^verbatim>\<open>os.IsNotExist\<close> holds\<close>
  | EOS string string \<comment> \<open>any other failure of a system call: the call, the message\<close>
  | ExitError string \<comment> \<open>the error of \<^verbatim>\<open>cmd.CombinedOutput\<close>\<close>
  | Wrapped error string \<comment> \<open>\<^verbatim>\<open>errors.Wrap(cause, message)\<close>\<close>
  | Errorf string \<comment> \<open>\<^verbatim>\<open>fmt.Errorf\<close> with the message formatted\<close>

fun os_IsNotExist :: "error \<Rightarrow> bool" where
  "os_IsNotExist (ENOENT p) = True"
| "os_IsNotExist e = False"

subsection \<open>The corpus\<close>

record Repo =
  owner :: string
  name :: string
  revs :: "string list"

definition repos :: "Repo list" where
  "repos =
   [\<lparr>owner = ''uber-go'', name = ''zap'',
      revs = [''a6015e13fab9b744d96085308ce4e8f11bad1996'',
              ''2aa9fa25da83bdfff756c36a91442edc9a84576c'']\<rparr>,
    \<lparr>owner = ''influxdata'', name = ''influxdb'',
      revs = [''369186d339389cfd79ab3e303687521d640c0ba2'',
              ''0f09f4d2ab27fbef88cb49d890d9bec6ee6ca675'',
              ''7be7328c3bd307f779c69c809b24d30808f72b12'']\<rparr>,
    \<lparr>owner = ''distributedio'', name = ''titan'',
      revs = [''0ad2e75d529bda74472a1dbb5e488ec095b07fe7'',
              ''33623cc32f8d9f999fd69189d29124d4368c20ab'',
              ''aef232fbec9089d4468ff06705a3a7f84ee50ea6'']\<rparr>,
    \<lparr>owner = ''etcd-io'', name = ''etcd'',
      revs = [''dfb0a405096af39e694a501de5b0a46962b3050e'',
              ''1044a8b07c56f3d32a1f3fe91c8ec849a8b17b5e'',
              ''fb77f9b1d56391318823c434f586ffe371750321'']\<rparr>,
    \<lparr>owner = ''pingcap'', name = ''tidb'',
      revs = [''b4f42abc36d893ec3f443af78fc62705a2e54236'',
              ''43764a59b7dcb846dc1e9754e8f125818c69a96f'',
              ''2f9a487ebbd2f1a46b5f2c2262ae8f0ef4c4d42f'']\<rparr>]"

subsection \<open>The world and the operating system\<close>

datatype event =
    Exec string string "string list" \<comment> \<open>a subprocess: working directory, command, arguments\<close>
  | TempDir string \<comment> \<open>a temporary directory was created\<close>
  | RemoveAll string \<comment> \<open>a directory tree was removed\<close>

record world =
  fs :: "string set" \<comment> \<open>the paths that exist\<close>
  trace :: "event list" \<comment> \<open>what the program did to the world, oldest first\<close>
  stdout :: "string list" \<comment> \<open>the lines printed\<close>

text \<open>
  What the operating system answers.  \<open>stat_fault\<close> gives the paths on which
  \<^verbatim>\<open>stat\<close> fails for a reason other than absence (permission denied, an I/O error);
  \<open>proc\<close> is a subprocess: its combined output, its failure if any, and the paths that
  exist when it ends (a subprocess may change the file system in any way);
  \<open>temp_name\<close> is the path of the directory that \<^verbatim>\<open>ioutil.TempDir\<close> makes in the
  directory it is given, a path the library picks, or why it fails; \<open>getwd\<close> is the
  working directory, or why it cannot be read.
\<close>

record os =
  stat_fault :: "world \<Rightarrow> string \<Rightarrow> string option"
  proc :: "world \<Rightarrow> string \<Rightarrow> string \<Rightarrow> string list \<Rightarrow> string \<times> string option \<times> string set"
  temp_name :: "string \<Rightarrow> world \<Rightarrow> string + string"
  getwd :: "string + string"

text \<open>\<^verbatim>\<open>os.Stat\<close>, of which both callers keep the error only.\<close>

definition os_Stat :: "os \<Rightarrow> world \<Rightarrow> string \<Rightarrow> error option" where
  "os_Stat sys w p =
     (case stat_fault sys w p of
        Some m \<Rightarrow> Some (EOS ''stat'' m)
      | None \<Rightarrow> if p \<in> fs w then None else Some (ENOENT p))"

text \<open>A path lies under a directory when it is the directory or is below it.\<close>

definition lies_under :: "string \<Rightarrow> string \<Rightarrow> bool" where
  "lies_under d p = (p = d \<or> prefix (d @ ''/'') p)"

text \<open>
  \<^verbatim>\<open>os.RemoveAll\<close>.  The source discards its error (\<^verbatim>\<open>defer os.RemoveAll(tempDir)\<close>);
  the model takes the removal to do what it is called for.
\<close>

definition os_RemoveAll :: "string \<Rightarrow> world \<Rightarrow> world" where
  "os_RemoveAll d w = w\<lparr>fs := {p \<in> fs w. \<not> lies_under d p}, trace := trace w @ [RemoveAll d]\<rparr>"

text \<open>
  \<^verbatim>\<open>filepath.Clean\<close> on slash-separated paths: slashes that follow one another count as
  one, an element \<^verbatim>\<open>.\<close> is dropped, an element \<^verbatim>\<open>..\<close> takes away the element before it
  (at the root it is dropped, at the start of a relative path it stays), no slash stays
  at the end, and the empty result is \<^verbatim>\<open>.\<close>.
\<close>

fun split_on :: "char \<Rightarrow> string \<Rightarrow> string list" where
  "split_on c [] = [[]]"
| "split_on c (x # xs) =
     (if x = c then [] # split_on c xs
      else case split_on c xs of
             [] \<Rightarrow> [[x]]
           | y # ys \<Rightarrow> (x # y) # ys)"

text \<open>The elements kept, the last one first, while the remaining elements are read.\<close>

fun clean_elems :: "bool \<Rightarrow> string list \<Rightarrow> string list \<Rightarrow> string list" where
  "clean_elems rooted out [] = rev out"
| "clean_elems rooted out (e # es) =
     (if e = [] \<or> e = ''.'' then clean_elems rooted out es
      else if e = ''..'' then
        (case out of
           [] \<Rightarrow> if rooted then clean_elems rooted out es else clean_elems rooted [e] es
         | kept # below \<Rightarrow>
             if kept = ''..'' then clean_elems rooted (e # out) es
             else clean_elems rooted below es)
      else clean_elems rooted (e # out) es)"

fun filepath_IsAbs :: "string \<Rightarrow> bool" where
  "filepath_IsAbs [] = False"
| "filepath_IsAbs (c # cs) = (c = CHR ''/'')"

fun strings_Join :: "string list \<Rightarrow> string \<Rightarrow> string" where
  "strings_Join [] sep = []"
| "strings_Join [x] sep = x"
| "strings_Join (x # y # ys) sep = x @ sep @ strings_Join (y # ys) sep"

definition filepath_Clean :: "string \<Rightarrow> string" where
  "filepath_Clean p =
     (let rooted = filepath_IsAbs p;
          out = strings_Join (clean_elems rooted [] (split_on (CHR ''/'') p)) ''/''
      in if rooted then ''/'' @ out else if out = [] then ''.'' else out)"

text \<open>
  \<^verbatim>\<open>filepath.Join\<close> of two elements: from the first element that is not empty on, the
  elements are put together with a slash and the result is cleaned.
\<close>

definition filepath_Join :: "string \<Rightarrow> string \<Rightarrow> string" where
  "filepath_Join a b =
     (if a \<noteq> [] then filepath_Clean (a @ ''/'' @ b)
      else if b \<noteq> [] then filepath_Clean b
      else [])"

definition filepath_Abs :: "os \<Rightarrow> string \<Rightarrow> error + string" where
  "filepath_Abs sys p =
     (if filepath_IsAbs p then Inr (filepath_Clean p)
      else case getwd sys of
             Inl m \<Rightarrow> Inl (EOS ''getwd'' m)
           | Inr wd \<Rightarrow> Inr (filepath_Join wd p))"

text \<open>
  \<^verbatim>\<open>ioutil.TempDir(dir, "")\<close>: the library makes a new directory in \<open>dir\<close> and returns
  its path, spelled as the library spells it (for the directory \<^verbatim>\<open>.\<close>, the name alone or
  the name after \<^verbatim>\<open>./\<close>).
\<close>

definition ioutil_TempDir :: "os \<Rightarrow> string \<Rightarrow> world \<Rightarrow> (error + string) \<times> world" where
  "ioutil_TempDir sys dir w =
     (case temp_name sys dir w of
        Inl m \<Rightarrow> (Inl (EOS ''mkdir'' m), w)
      | Inr d \<Rightarrow> (Inr d, w\<lparr>fs := insert d (fs w), trace := trace w @ [TempDir d]\<rparr>))"

definition printf :: "string \<Rightarrow> world \<Rightarrow> world" where
  "printf s w = w\<lparr>stdout := stdout w @ [s]\<rparr>"

subsection \<open>Subprocesses\<close>

definition runCommand :: "os \<Rightarrow> string \<Rightarrow> string \<Rightarrow> string list \<Rightarrow> world \<Rightarrow> error option \<times> world" where
  "runCommand sys dir command args w =
     (case proc sys w dir command args of
        (output, failure, fs') \<Rightarrow>
          let w' = w\<lparr>fs := fs', trace := trace w @ [Exec dir command args]\<rparr>
          in case failure of
               None \<Rightarrow> (None, w')
             | Some m \<Rightarrow>
                 (Some (Wrapped (ExitError m)
                    (''error running '' @ [CHR 0x27] @ strings_Join (command # args) '' ''
                       @ [CHR 0x27] @ '':'' @ [CHR 0x0A] @ output @ [CHR 0x0A])), w'))"

subsection \<open>The clone task\<close>

definition ensureCloned :: "os \<Rightarrow> Repo \<Rightarrow> world \<Rightarrow> error option \<times> world" where
  "ensureCloned sys repo w =
     (case os_Stat sys w (filepath_Join ''repos'' (name repo)) of
        None \<Rightarrow> (None, w)
      | Some err \<Rightarrow>
          if \<not> os_IsNotExist err then (Some err, w)
          else
            let w1 = printf (''Cloning '' @ owner repo @ ''/'' @ name repo @ [CHR 0x0A]) w;
                cloneURL = ''https://github.com/'' @ owner repo @ ''/'' @ name repo @ ''.git''
            in runCommand sys ''repos'' ''git'' [''clone'', cloneURL] w1)"

subsection \<open>The index task\<close>

text \<open>The closures of \<^verbatim>\<open>commands\<close>, each a call of \<^verbatim>\<open>runCommand\<close>, as their arguments.\<close>

type_synonym command = "string \<times> string \<times> string list"

text \<open>The event a command leaves in the trace when it is run.\<close>

fun exec_event :: "command \<Rightarrow> event" where
  "exec_event (dir, command, args) = Exec dir command args"

text \<open>The loop over \<^verbatim>\<open>commands\<close>: the first error ends it.\<close>

fun run_commands :: "os \<Rightarrow> command list \<Rightarrow> world \<Rightarrow> error option \<times> world" where
  "run_commands sys [] w = (None, w)"
| "run_commands sys ((dir, command, args) # cs) w =
     (case runCommand sys dir command args w of
        (Some e, w') \<Rightarrow> (Some e, w')
      | (None, w') \<Rightarrow> run_commands sys cs w')"

definition index_file :: "string \<Rightarrow> string \<Rightarrow> string" where
  "index_file nm rv = filepath_Join ''indexes'' (nm @ ''.'' @ rv @ ''.dump'')"

definition index_commands :: "string \<Rightarrow> string \<Rightarrow> string \<Rightarrow> string \<Rightarrow> command list" where
  "index_commands tempDir nm rv indexFile =
     (let sourceDir = filepath_Join ''repos'' nm;
          targetDir = filepath_Join tempDir nm
      in [([], ''cp'', [''-r'', sourceDir, tempDir]),
          (targetDir, ''git'', [''checkout'', rv]),
          (targetDir, ''go'', [''mod'', ''vendor'']),
          (targetDir, ''lsif-go'', [''-o'', indexFile])])"

text \<open>
  \<^verbatim>\<open>index\<close>.  The deferred \<^verbatim>\<open>os.RemoveAll(tempDir)\<close> is registered once the directory
  exists and runs when the function returns, whatever it returns.
\<close>

definition index :: "os \<Rightarrow> string \<Rightarrow> string \<Rightarrow> string \<Rightarrow> world \<Rightarrow> error option \<times> world" where
  "index sys ownr nm rv w =
     (case filepath_Abs sys (index_file nm rv) of
        Inl e \<Rightarrow> (Some e, w)
      | Inr indexFile \<Rightarrow>
          (case os_Stat sys w indexFile of
             None \<Rightarrow> (None, w)
           | Some err \<Rightarrow>
               if \<not> os_IsNotExist err then (Some err, w)
               else
                 case ioutil_TempDir sys ''.'' w of
                   (Inl e, w1) \<Rightarrow> (Some e, w1)
                 | (Inr tempDir, w1) \<Rightarrow>
                     let w2 = printf (''Indexing '' @ ownr @ ''/'' @ nm @ '' at '' @ rv @ [CHR 0x0A]) w1;
                         (r, w3) = run_commands sys (index_commands tempDir nm rv indexFile) w2
                     in (r, os_RemoveAll tempDir w3)))"


subsection \<open>The upload task\<close>

definition upload :: "os \<Rightarrow> string \<Rightarrow> string \<Rightarrow> string \<Rightarrow> world \<Rightarrow> error option \<times> world" where
  "upload sys ownr nm rv w =
     (let w1 = printf (''Uploading '' @ ownr @ ''/'' @ nm @ '' at '' @ rv @ [CHR 0x0A]) w in
      case runCommand sys ''indexes'' ''src''
             [''-endpoint=http://localhost:3080'', ''lsif'', ''upload'', ''-root=/'',
              ''-repo='' @ (''github.com/'' @ ownr @ ''/'' @ nm),
              ''-commit='' @ rv,
              ''-file='' @ (nm @ ''.'' @ rv @ ''.dump'')] w1 of
        (Some err, w') \<Rightarrow> (Some err, w')
      | (None, w') \<Rightarrow> (None, w'))"

subsection \<open>Fan-out and fan-in\<close>

text \<open>
  Each phase starts one goroutine per unit of work; a goroutine runs its unit and sends
  the result on the channel \<^verbatim>\<open>errs\<close>, made with a capacity.  \<^verbatim>\<open>wg.Wait()\<close> returns once
  every goroutine is done; the channel is closed and drained, and the first error
  received that is not nil is returned.

  The scheduler is a parameter of the model: the list of the units in the order in which
  their goroutines run to completion, any permutation of the units started.  A unit runs
  as one step (the interleaving of two units' system calls is not modelled).  A send on a
  full channel blocks; a goroutine that blocks, or a unit that never returns, keeps
  \<^verbatim>\<open>wg.Wait()\<close> from returning, and the model returns \<open>None\<close>.
\<close>

type_synonym task = "world \<Rightarrow> (error option \<times> world) option"

definition chan_send :: "nat \<Rightarrow> 'a list \<Rightarrow> 'a \<Rightarrow> 'a list option" where
  "chan_send cap buf v = (if length buf < cap then Some (buf @ [v]) else None)"

text \<open>The goroutines, in the order in which they complete, up to \<^verbatim>\<open>wg.Wait()\<close> returning.\<close>

fun go_all :: "nat \<Rightarrow> task list \<Rightarrow> error option list \<Rightarrow> world \<Rightarrow> (error option list \<times> world) option" where
  "go_all cap [] errs w = Some (errs, w)"
| "go_all cap (t # ts) errs w =
     (case t w of
        None \<Rightarrow> None
      | Some (r, w') \<Rightarrow>
          (case chan_send cap errs r of
             None \<Rightarrow> None
           | Some errs' \<Rightarrow> go_all cap ts errs' w'))"

text \<open>The loop \<^verbatim>\<open>for err := range errs\<close> over the closed channel.\<close>

fun drain :: "error option list \<Rightarrow> error option" where
  "drain [] = None"
| "drain (None # errs) = drain errs"
| "drain (Some err # errs) = Some err"

text \<open>The pattern the three phases share: channel, goroutines, barrier, drain.\<close>

definition fan_out :: "nat \<Rightarrow> task list \<Rightarrow> world \<Rightarrow> (error option \<times> world) option" where
  "fan_out cap tasks w =
     (case go_all cap tasks [] w of
        None \<Rightarrow> None
      | Some (errs, w') \<Rightarrow> Some (drain errs, w'))"

definition parallelForRepo :: "(Repo \<Rightarrow> task) \<Rightarrow> Repo list \<Rightarrow> task" where
  "parallelForRepo f completion w = fan_out (length repos) (map f completion) w"

definition ensureAllCloned :: "os \<Rightarrow> Repo list \<Rightarrow> task" where
  "ensureAllCloned sys completion = parallelForRepo (\<lambda>repo w. Some (ensureCloned sys repo w)) completion"

definition ensureIndexed :: "os \<Rightarrow> Repo \<Rightarrow> string list \<Rightarrow> task" where
  "ensureIndexed sys repo completion w =
     fan_out (length (revs repo))
       (map (\<lambda>rv w. Some (index sys (owner repo) (name repo) rv w)) completion) w"

definition ensureAllIndexed :: "os \<Rightarrow> Repo list \<Rightarrow> (Repo \<Rightarrow> string list) \<Rightarrow> task" where
  "ensureAllIndexed sys completion rev_completion =
     parallelForRepo (\<lambda>repo. ensureIndexed sys repo (rev_completion repo)) completion"

definition ensureAllUploaded :: "os \<Rightarrow> (Repo \<times> string) list \<Rightarrow> task" where
  "ensureAllUploaded sys completion w =
     (let total = fold (\<lambda>repo total. total + length (revs repo)) repos 0 in
      fan_out total
        (map (\<lambda>(repo, rv) w. Some (upload sys (owner repo) (name repo) rv w)) completion) w)"

text \<open>The goroutines \<^verbatim>\<open>ensureAllUploaded\<close> starts, in the order of its two loops.\<close>

definition upload_units :: "(Repo \<times> string) list" where
  "upload_units = concat (map (\<lambda>repo. map (Pair repo) (revs repo)) repos)"

text \<open>
  What the units of a phase return when they run one after the other in the given order,
  each to its end whatever the others returned: the reference the fan-out is compared
  with.
\<close>

fun run_all :: "task list \<Rightarrow> world \<Rightarrow> (error option list \<times> world) option" where
  "run_all [] w = Some ([], w)"
| "run_all (t # ts) w =
     (case t w of
        None \<Rightarrow> None
      | Some (r, w') \<Rightarrow>
          (case run_all ts w' of
             None \<Rightarrow> None
           | Some (rs, w'') \<Rightarrow> Some (r # rs, w'')))"

text \<open>
  \<open>agg\<close> aggregates the results \<open>errs\<close>: it is nil exactly when all of them are, and
  otherwise it is the first of them, in the order given, that is not nil.
\<close>

definition first_error_of :: "error option list \<Rightarrow> error option \<Rightarrow> bool" where
  "first_error_of errs agg =
     ((agg = None \<longleftrightarrow> (\<forall>r\<in>set errs. r = None)) \<and>
      (\<forall>e. agg = Some e \<longrightarrow>
         (\<exists>k<length errs. errs ! k = Some e \<and> (\<forall>j<k. errs ! j = None))))"

subsection \<open>The clone attempts of a phase\<close>

text \<open>
  The clone attempts due when the clone tasks of the given repositories run one after the
  other from the world \<open>w\<close>: a repository whose directory \<open>repos/name\<close> is absent when its
  task looks, on a \<^verbatim>\<open>stat\<close> that does not fault, is cloned once, and the look of the next
  task is at the world that clone leaves; any other repository is not cloned.
\<close>

fun clone_attempts :: "os \<Rightarrow> Repo list \<Rightarrow> world \<Rightarrow> event list" where
  "clone_attempts sys [] w = []"
| "clone_attempts sys (repo # rest) w =
     (if stat_fault sys w (filepath_Join ''repos'' (name repo)) = None
         \<and> filepath_Join ''repos'' (name repo) \<notin> fs w
      then Exec ''repos'' ''git''
             [''clone'', ''https://github.com/'' @ owner repo @ ''/'' @ name repo @ ''.git'']
           # clone_attempts sys rest
               (snd (runCommand sys ''repos'' ''git''
                  [''clone'', ''https://github.com/'' @ owner repo @ ''/'' @ name repo @ ''.git'']
                  (printf (''Cloning '' @ owner repo @ ''/'' @ name repo @ [CHR 0x0A]) w)))
      else clone_attempts sys rest w)"

section \<open>The bundle manager client\<close>

subsection \<open>Formatting\<close>

text \<open>The verb \<^verbatim>\<open>%d\<close> of \<^verbatim>\<open>fmt\<close>: an integer in decimal.\<close>

fun digits :: "nat \<Rightarrow> string" where
  "digits n = (if n < 10 then [''0123456789'' ! n] else digits (n div 10) @ [''0123456789'' ! (n mod 10)])"

declare digits.simps [simp del]

definition itoa :: "int \<Rightarrow> string" where
  "itoa i = (if i < 0 then ''-'' @ digits (nat (- i)) else digits (nat i))"

text \<open>
  The values a caller puts into a query map (\<^verbatim>\<open>map[string]interface{}\<close>), and the verb
  \<^verbatim>\<open>%v\<close> on them.
\<close>

datatype gvalue = GInt int | GString string | GBool bool | GNil

fun sprint_v :: "gvalue \<Rightarrow> string" where
  "sprint_v (GInt i) = itoa i"
| "sprint_v (GString s) = s"
| "sprint_v (GBool b) = (if b then ''true'' else ''false'')"
| "sprint_v GNil = ''<nil>''"

fun Error_msg :: "error \<Rightarrow> string" where
  "Error_msg (ENOENT p) = ''stat '' @ p @ '': no such file or directory''"
| "Error_msg (EOS call m) = call @ '': '' @ m"
| "Error_msg (ExitError m) = m"
| "Error_msg (Wrapped e m) = m @ '': '' @ Error_msg e"
| "Error_msg (Errorf m) = m"

subsection \<open>URLs\<close>

text \<open>
  \<^verbatim>\<open>url.QueryEscape\<close>: letters, digits and \<^verbatim>\<open>-_.~\<close> stay, a space becomes \<^verbatim>\<open>+\<close>, every
  other byte becomes \<^verbatim>\<open>%XX\<close>.
\<close>

definition between :: "char \<Rightarrow> char \<Rightarrow> char \<Rightarrow> bool" where
  "between lo hi c = (lo \<le> c \<and> c \<le> hi)"

definition shouldEscape :: "char \<Rightarrow> bool" where
  "shouldEscape c =
     (if between (CHR ''a'') (CHR ''z'') c \<or> between (CHR ''A'') (CHR ''Z'') c
         \<or> between (CHR ''0'') (CHR ''9'') c
      then False
      else c \<notin> set ''-_.~'')"

definition escape_char :: "char \<Rightarrow> string" where
  "escape_char c =
     (if c = CHR '' '' then ''+''
      else if shouldEscape c then
        [CHR ''%'', ''0123456789ABCDEF'' ! (of_char c div 16), ''0123456789ABCDEF'' ! (of_char c mod 16)]
      else [c])"

definition QueryEscape :: "string \<Rightarrow> string" where
  "QueryEscape s = concat (map escape_char s)"

text \<open>
  A Go map is unordered: \<^verbatim>\<open>range\<close> visits its entries in an order that differs from run
  to run.  The model gives a map as the list of its entries in the order in which this
  run visits them; the keys of a map are distinct.
\<close>

type_synonym ('k, 'v) gomap = "('k \<times> 'v) list"

fun map_assign :: "('k, 'v) gomap \<Rightarrow> 'k \<Rightarrow> 'v \<Rightarrow> ('k, 'v) gomap" where
  "map_assign [] k v = [(k, v)]"
| "map_assign ((k', v') # m) k v = (if k' = k then (k, v) # m else (k', v') # map_assign m k v)"

fun map_index :: "('k, 'v list) gomap \<Rightarrow> 'k \<Rightarrow> 'v list" where
  "map_index [] k = []"
| "map_index ((k', v') # m) k = (if k' = k then v' else map_index m k)"

text \<open>
  \<^verbatim>\<open>url.Values.Encode\<close>: the keys are collected, sorted with \<^verbatim>\<open>sort.Strings\<close> (bytewise),
  and each value of each key is written as \<^verbatim>\<open>key=value\<close>, both escaped, with \<^verbatim>\<open>&\<close>
  between the pairs.
\<close>

definition Values_Encode :: "(string, string list) gomap \<Rightarrow> string" where
  "Values_Encode v =
     (let keys = sort (map fst v) in
      strings_Join
        (concat (map (\<lambda>k. map (\<lambda>x. QueryEscape k @ ''='' @ QueryEscape x) (map_index v k)) keys))
        ''&'')"

text \<open>
  A parsed URL.  \<^verbatim>\<open>URL.String\<close> writes the scheme, the authority and the path, then
  \<^verbatim>\<open>?\<close> and the raw query when there is one, then \<^verbatim>\<open>#\<close> and the fragment when there is
  one; \<open>Front\<close> is the first part as \<^verbatim>\<open>String\<close> writes it, \<open>Fragment\<close> the escaped
  fragment.  \<^verbatim>\<open>url.Parse\<close> belongs to the standard library and is a parameter.
\<close>

record URL =
  Front :: string
  ForceQuery :: bool
  RawQuery :: string
  Fragment :: string

definition URL_String :: "URL \<Rightarrow> string" where
  "URL_String u =
     Front u @ (if ForceQuery u \<or> RawQuery u \<noteq> [] then ''?'' @ RawQuery u else [])
       @ (if Fragment u \<noteq> [] then ''#'' @ Fragment u else [])"

type_synonym parser = "string \<Rightarrow> string + URL"

definition makeURL :: "parser \<Rightarrow> string \<Rightarrow> string \<Rightarrow> (string, gvalue) gomap \<Rightarrow> error + URL" where
  "makeURL url_Parse baseURL path qs =
     (let values = fold (\<lambda>(k, v) values. map_assign values k [sprint_v v]) qs [] in
      case url_Parse (baseURL @ ''/'' @ path) of
        Inl m \<Rightarrow> Inl (EOS ''parse'' m)
      | Inr u \<Rightarrow> Inr (u\<lparr>RawQuery := Values_Encode values\<rparr>))"

definition makeBundleURL :: "parser \<Rightarrow> string \<Rightarrow> int \<Rightarrow> string \<Rightarrow> (string, gvalue) gomap \<Rightarrow> error + URL" where
  "makeBundleURL url_Parse baseURL bundleID op qs =
     makeURL url_Parse baseURL (''dbs/'' @ itoa bundleID @ ''/'' @ op) qs"

subsection \<open>Requests, responses and the client's world\<close>

text \<open>A context is given by the spans it carries, the innermost first.\<close>

type_synonym gocontext = "string list"

record request =
  Method :: string
  Target :: string
  Header :: "(string \<times> string) list"
  Payload :: "string option"
  Ctx :: gocontext

text \<open>A response body is a stream: it delivers its bytes and then ends or fails.\<close>

record body =
  bytes :: string
  read_err :: "string option"

record response =
  StatusCode :: int
  Body :: body

datatype cevent =
    SpanStart string | SpanTag string string | SpanLogKV string string | SpanError | SpanFinish
  | LimiterAcquire | LimiterRelease | TraceRequest | TraceFinish
  | RoundTrip request | BodyClose | FileCreate string | FileClose string

text \<open>
  A result a caller wants a JSON document decoded into: a pointer to the caller's
  variable, or the address of an interface variable that holds such a result.
\<close>

datatype target = Dest nat | AddrOf target

fun deref :: "target \<Rightarrow> nat" where
  "deref (Dest p) = p"
| "deref (AddrOf t) = deref t"

record cworld =
  cfiles :: "string \<rightharpoonup> string" \<comment> \<open>the files on disk and what they hold\<close>
  ctrace :: "cevent list" \<comment> \<open>what the client did, oldest first\<close>
  decoded :: "nat \<rightharpoonup> string" \<comment> \<open>the variables JSON documents were decoded into\<close>

text \<open>
  What the libraries and the network answer: \<^verbatim>\<open>url.Parse\<close>; whether
  \<^verbatim>\<open>http.NewRequest\<close> rejects a method and URL; \<^verbatim>\<open>httpClient.Do\<close>, a transport failure or
  a response; \<^verbatim>\<open>uuid.NewRandom\<close>; whether \<^verbatim>\<open>os.Create\<close> fails on a path; after how many
  bytes and why a write to a file fails; whether closing a file fails; and the JSON
  decoder on a body.
\<close>

record net =
  url_Parse :: parser
  NewRequest_fault :: "string \<Rightarrow> string \<Rightarrow> string option"
  Do :: "request \<Rightarrow> cworld \<Rightarrow> string + response"
  uuid_NewRandom :: "cworld \<Rightarrow> string + string"
  Create_fault :: "string \<Rightarrow> string option"
  Write_fault :: "string \<Rightarrow> (nat \<times> string) option"
  Close_fault :: "string \<Rightarrow> string option"
  Decode :: "body \<Rightarrow> string + string"

definition emit :: "cevent list \<Rightarrow> cworld \<Rightarrow> cworld" where
  "emit es w = w\<lparr>ctrace := ctrace w @ es\<rparr>"

record clientImpl =
  url :: string
  httpLimiter :: "nat option"
  userAgent :: string

definition http_StatusOK :: int where
  "http_StatusOK = 200"

subsection \<open>The request\<close>

text \<open>
  \<^verbatim>\<open>clientImpl.do\<close>.  Its deferred calls run when it returns, the last registered first:
  \<^verbatim>\<open>ht.Finish()\<close>, then \<^verbatim>\<open>c.httpLimiter.Release()\<close>.
\<close>

definition do :: "net \<Rightarrow> clientImpl \<Rightarrow> gocontext \<Rightarrow> string \<Rightarrow> URL \<Rightarrow> string option \<Rightarrow> cworld
    \<Rightarrow> (error + body) \<times> cworld" where
  "do nt c ctx method u payload w =
     (case NewRequest_fault nt method (URL_String u) of
        Some m \<Rightarrow> (Inl (EOS ''http.NewRequest'' m), w)
      | None \<Rightarrow>
          let req = \<lparr>Method = method, Target = URL_String u,
                     Header = [(''Content-Type'', ''application/json''), (''User-Agent'', userAgent c)],
                     Payload = payload, Ctx = ctx\<rparr>;
              w1 = (case httpLimiter c of
                      None \<Rightarrow> w
                    | Some n \<Rightarrow> emit [LimiterAcquire, SpanLogKV ''event'' ''Acquired HTTP limiter''] w);
              w2 = emit [TraceRequest, RoundTrip req] w1;
              (res, w3) =
                (case Do nt req w2 of
                   Inl m \<Rightarrow> (Inl (EOS ''http.Do'' m), w2)
                 | Inr resp \<Rightarrow>
                     if StatusCode resp \<noteq> http_StatusOK
                     then (Inl (Errorf (''unexpected status code '' @ itoa (StatusCode resp))),
                           emit [BodyClose] w2)
                     else (Inr (Body resp), w2));
              w4 = emit [TraceFinish] w3;
              w5 = (case httpLimiter c of None \<Rightarrow> w4 | Some n \<Rightarrow> emit [LimiterRelease] w4)
          in (res, w5))"

text \<open>
  The span every operation opens, and the deferred function that ends it: it marks the
  span when the operation's named result \<^verbatim>\<open>err\<close> is not nil.
\<close>

definition start_span :: "string \<Rightarrow> (string \<times> string) list \<Rightarrow> cworld \<Rightarrow> cworld" where
  "start_span nm tags w = emit (SpanStart nm # map (\<lambda>(k, v). SpanTag k v) tags) w"

definition finish_span :: "error option \<Rightarrow> cworld \<Rightarrow> cworld" where
  "finish_span err w =
     (case err of
        None \<Rightarrow> emit [SpanFinish] w
      | Some e \<Rightarrow> emit [SpanError, SpanTag ''err'' (Error_msg e), SpanFinish] w)"

subsection \<open>The operations\<close>

definition SendUpload :: "net \<Rightarrow> clientImpl \<Rightarrow> gocontext \<Rightarrow> int \<Rightarrow> string \<Rightarrow> cworld \<Rightarrow> error option \<times> cworld" where
  "SendUpload nt c ctx bundleID r w =
     (let w1 = start_span ''client.SendUpload'' [(''bundleID'', itoa bundleID)] w;
          ctx1 = ''client.SendUpload'' # ctx;
          (err, w2) =
            (case makeURL (url_Parse nt) (url c) (''uploads/'' @ itoa bundleID) [] of
               Inl e \<Rightarrow> (Some e, w1)
             | Inr u \<Rightarrow>
                 (case do nt c ctx1 ''POST'' u (Some r) w1 of
                    (Inl e, w') \<Rightarrow> (Some e, w')
                  | (Inr b, w') \<Rightarrow> (None, emit [BodyClose] w')))
      in (err, finish_span err w2))"

definition SendDB :: "net \<Rightarrow> clientImpl \<Rightarrow> gocontext \<Rightarrow> int \<Rightarrow> string \<Rightarrow> cworld \<Rightarrow> error option \<times> cworld" where
  "SendDB nt c ctx bundleID r w =
     (let w1 = start_span ''client.SendDB'' [(''bundleID'', itoa bundleID)] w;
          ctx1 = ''client.SendDB'' # ctx;
          (err, w2) =
            (case makeURL (url_Parse nt) (url c) (''dbs/'' @ itoa bundleID) [] of
               Inl e \<Rightarrow> (Some e, w1)
             | Inr u \<Rightarrow>
                 (case do nt c ctx1 ''POST'' u (Some r) w1 of
                    (Inl e, w') \<Rightarrow> (Some e, w')
                  | (Inr b, w') \<Rightarrow> (None, emit [BodyClose] w')))
      in (err, finish_span err w2))"

definition os_Create :: "net \<Rightarrow> string \<Rightarrow> cworld \<Rightarrow> (error + string) \<times> cworld" where
  "os_Create nt p w =
     (case Create_fault nt p of
        Some m \<Rightarrow> (Inl (EOS ''open'' m), w)
      | None \<Rightarrow> (Inr p, emit [FileCreate p] (w\<lparr>cfiles := (cfiles w)(p \<mapsto> [])\<rparr>)))"

definition openRandomFile :: "net \<Rightarrow> string \<Rightarrow> cworld \<Rightarrow> (error + string) \<times> cworld" where
  "openRandomFile nt dir w =
     (case uuid_NewRandom nt w of
        Inl m \<Rightarrow> (Inl (EOS ''uuid'' m), w)
      | Inr uuid \<Rightarrow> os_Create nt (filepath_Join dir uuid) w)"

text \<open>
  \<^verbatim>\<open>io.Copy(f, body)\<close>: what the body delivers is written to the file; the copy fails
  when a write fails or when the body fails, and what was written by then stays.
\<close>

definition io_Copy :: "net \<Rightarrow> string \<Rightarrow> body \<Rightarrow> cworld \<Rightarrow> error option \<times> cworld" where
  "io_Copy nt f b w =
     (case Write_fault nt f of
        Some (n, m) \<Rightarrow>
          if n < length (bytes b)
          then (Some (EOS ''write'' m), w\<lparr>cfiles := (cfiles w)(f \<mapsto> take n (bytes b))\<rparr>)
          else (map_option (EOS ''read'') (read_err b), w\<lparr>cfiles := (cfiles w)(f \<mapsto> bytes b)\<rparr>)
      | None \<Rightarrow> (map_option (EOS ''read'') (read_err b), w\<lparr>cfiles := (cfiles w)(f \<mapsto> bytes b)\<rparr>))"

definition file_Close :: "net \<Rightarrow> string \<Rightarrow> cworld \<Rightarrow> error option \<times> cworld" where
  "file_Close nt f w = (map_option (EOS ''close'') (Close_fault nt f), emit [FileClose f] w)"

text \<open>
  \<^verbatim>\<open>GetUpload\<close>.  Deferred, in the order in which they run: the closure that closes the
  file and keeps its error when no error is set yet, \<^verbatim>\<open>body.Close()\<close>, the closure
  that ends the span.
\<close>

definition GetUpload :: "net \<Rightarrow> clientImpl \<Rightarrow> gocontext \<Rightarrow> int \<Rightarrow> string \<Rightarrow> cworld
    \<Rightarrow> (string \<times> error option) \<times> cworld" where
  "GetUpload nt c ctx bundleID dir w =
     (let w1 = start_span ''client.GetUpload'' [(''bundleID'', itoa bundleID)] w;
          ctx1 = ''client.GetUpload'' # ctx;
          ((path, err), w2) =
            (case makeURL (url_Parse nt) (url c) (''uploads/'' @ itoa bundleID) [] of
               Inl e \<Rightarrow> (([], Some e), w1)
             | Inr u \<Rightarrow>
                 (case do nt c ctx1 ''GET'' u None w1 of
                    (Inl e, w') \<Rightarrow> (([], Some e), w')
                  | (Inr b, w') \<Rightarrow>
                      (case openRandomFile nt dir w' of
                         (Inl e, w'') \<Rightarrow> (([], Some e), emit [BodyClose] w'')
                       | (Inr f, w'') \<Rightarrow>
                           let (copyErr, w3) = io_Copy nt f b w'';
                               (path, err) = (case copyErr of Some e \<Rightarrow> ([], Some e) | None \<Rightarrow> (f, None));
                               (closeErr, w4) = file_Close nt f w3;
                               err' = (if err = None then closeErr else err)
                           in ((path, err'), emit [BodyClose] w4))))
      in ((path, err), finish_span err w2))"

definition json_Decode :: "net \<Rightarrow> body \<Rightarrow> target \<Rightarrow> cworld \<Rightarrow> error option \<times> cworld" where
  "json_Decode nt b tgt w =
     (case Decode nt b of
        Inl m \<Rightarrow> (Some (EOS ''json'' m), w)
      | Inr doc \<Rightarrow> (None, w\<lparr>decoded := (decoded w)(deref tgt \<mapsto> doc)\<rparr>))"

definition queryBundle :: "net \<Rightarrow> clientImpl \<Rightarrow> gocontext \<Rightarrow> int \<Rightarrow> string \<Rightarrow> (string, gvalue) gomap
    \<Rightarrow> target \<Rightarrow> cworld \<Rightarrow> error option \<times> cworld" where
  "queryBundle nt c ctx bundleID op qs tgt w =
     (let w1 = start_span ''client.queryBundle'' [(''op'', op), (''bundleID'', itoa bundleID)] w;
          ctx1 = ''client.queryBundle'' # ctx;
          (err, w2) =
            (case makeBundleURL (url_Parse nt) (url c) bundleID op qs of
               Inl e \<Rightarrow> (Some e, w1)
             | Inr u \<Rightarrow>
                 (case do nt c ctx1 ''GET'' u None w1 of
                    (Inl e, w') \<Rightarrow> (Some e, w')
                  | (Inr b, w') \<Rightarrow>
                      (case json_Decode nt b (AddrOf tgt) w' of
                         (err, w'') \<Rightarrow> (err, emit [BodyClose] w''))))
      in (err, finish_span err w2))"

subsection \<open>The observed client\<close>

text \<open>
  An object is known by its address.  A \<^verbatim>\<open>bundleClientImpl\<close> holds the address of the
  client its queries go through, and the bundle.
\<close>

type_synonym ptr = nat

record bundleClientImpl =
  bc_base :: ptr
  bc_bundleID :: int

text \<open>\<^verbatim>\<open>clientImpl.BundleClient\<close>, on the client at address \<open>self\<close>.\<close>

definition clientImpl_BundleClient :: "ptr \<Rightarrow> clientImpl \<Rightarrow> int \<Rightarrow> bundleClientImpl" where
  "clientImpl_BundleClient self c bundleID = \<lparr>bc_base = self, bc_bundleID = bundleID\<rparr>"

text \<open>
  The interface \<^verbatim>\<open>ClientBase\<close>, whose declaration is not among the sources, as the
  methods \<^verbatim>\<open>ObservedClient\<close> has and calls: an implementation is the address of an object
  and its methods, functions on a world \<open>'w\<close> of its own and a context \<open>'c\<close>.
\<close>

record ('w, 'c) ClientBase =
  cb_ptr :: ptr
  cb_BundleClient :: "int \<Rightarrow> bundleClientImpl"
  cb_SendUpload :: "'c \<Rightarrow> int \<Rightarrow> string \<Rightarrow> 'w \<Rightarrow> error option \<times> 'w"
  cb_GetUpload :: "'c \<Rightarrow> int \<Rightarrow> string \<Rightarrow> 'w \<Rightarrow> (string \<times> error option) \<times> 'w"
  cb_SendDB :: "'c \<Rightarrow> int \<Rightarrow> string \<Rightarrow> 'w \<Rightarrow> error option \<times> 'w"
  cb_QueryBundle :: "'c \<Rightarrow> int \<Rightarrow> string \<Rightarrow> (string, gvalue) gomap \<Rightarrow> target \<Rightarrow> 'w \<Rightarrow> error option \<times> 'w"

text \<open>Durations are kept in nanoseconds, as \<^verbatim>\<open>time.Duration\<close> has them.\<close>

record OperationMetrics =
  Duration :: "int list" \<comment> \<open>the observations of the histogram\<close>
  Count :: int
  Errors :: int

text \<open>\<^verbatim>\<open>OperationMetrics.Observe\<close>, on a pointer that may be nil.\<close>

definition Observe :: "OperationMetrics option \<Rightarrow> int \<Rightarrow> int \<Rightarrow> error option \<Rightarrow> OperationMetrics option" where
  "Observe m secs cnt err =
     (case m of
        None \<Rightarrow> None
      | Some om \<Rightarrow>
          Some (om\<lparr>Duration := Duration om @ [secs], Count := Count om + cnt,
                  Errors := (if err \<noteq> None then Errors om + 1 else Errors om)\<rparr>))"

record ClientMetrics =
  m_SendUpload :: "OperationMetrics option"
  m_GetUpload :: "OperationMetrics option"
  m_SendDB :: "OperationMetrics option"
  m_QueryBundle :: "OperationMetrics option"

datatype tr_event = TrNew string | TrSetError "error option" | TrFinish

text \<open>What the metrics, the logger and the tracer of an \<^verbatim>\<open>ObservedClient\<close> have recorded.\<close>

record telemetry =
  metrics :: ClientMetrics
  logged :: "(string \<times> string \<times> error) list"
  traced :: "tr_event list"

record 'w observed =
  inner :: 'w \<comment> \<open>the world of the wrapped client\<close>
  tele :: telemetry

text \<open>
  The \<^verbatim>\<open>ObservedClient\<close>: the wrapped client, the context \<^verbatim>\<open>tracer.New\<close> derives, and
  the clock \<^verbatim>\<open>time.Now\<close> reads.
\<close>

record ('w, 'c) ObservedClient =
  oc_base :: "('w, 'c) ClientBase"
  tracer_New :: "'c \<Rightarrow> string \<Rightarrow> string \<Rightarrow> 'c"
  time_Now :: "'w \<Rightarrow> int"

definition log :: "string \<Rightarrow> error option \<Rightarrow> (string \<times> string \<times> error) list \<Rightarrow> (string \<times> string \<times> error) list" where
  "log msg err lg = (case err of None \<Rightarrow> lg | Some e \<Rightarrow> lg @ [(msg, ''error'', e)])"

text \<open>The deferred function of each operation, on the metrics of that operation.\<close>

definition observed_exit ::
  "((OperationMetrics option \<Rightarrow> OperationMetrics option) \<Rightarrow> ClientMetrics \<Rightarrow> ClientMetrics)
     \<Rightarrow> string \<Rightarrow> int \<Rightarrow> error option \<Rightarrow> telemetry \<Rightarrow> telemetry" where
  "observed_exit on_metrics msg secs err t =
     t\<lparr>metrics := on_metrics (\<lambda>m. Observe m secs 1 err) (metrics t),
       logged := log msg err (logged t),
       traced := traced t @ [TrSetError err, TrFinish]\<rparr>"

definition observed_enter :: "string \<Rightarrow> telemetry \<Rightarrow> telemetry" where
  "observed_enter family t = t\<lparr>traced := traced t @ [TrNew family]\<rparr>"

text \<open>
  \<^verbatim>\<open>ObservedClient.BundleClient\<close>, on the observed client at address \<open>self\<close>: the wrapped
  client is not asked, \<open>Override the default so we get the instrumented QueryBundle\<close>.
\<close>

definition ObservedClient_BundleClient :: "ptr \<Rightarrow> ('w, 'c) ObservedClient \<Rightarrow> int \<Rightarrow> bundleClientImpl" where
  "ObservedClient_BundleClient self c bundleID = \<lparr>bc_base = self, bc_bundleID = bundleID\<rparr>"

definition ObservedClient_SendUpload ::
  "('w, 'c) ObservedClient \<Rightarrow> 'c \<Rightarrow> int \<Rightarrow> string \<Rightarrow> 'w observed \<Rightarrow> error option \<times> 'w observed" where
  "ObservedClient_SendUpload c ctx bundleID r s =
     (let ctx1 = tracer_New c ctx ''Client.SendUpload'' [];
          t1 = observed_enter ''Client.SendUpload'' (tele s);
          began = time_Now c (inner s);
          (err, w') = cb_SendUpload (oc_base c) ctx1 bundleID r (inner s);
          secs = time_Now c w' - began
      in (err, \<lparr>inner = w', tele = observed_exit m_SendUpload_update ''client.send-upload'' secs err t1\<rparr>))"

definition ObservedClient_GetUpload ::
  "('w, 'c) ObservedClient \<Rightarrow> 'c \<Rightarrow> int \<Rightarrow> string \<Rightarrow> 'w observed
     \<Rightarrow> (string \<times> error option) \<times> 'w observed" where
  "ObservedClient_GetUpload c ctx bundleID dir s =
     (let ctx1 = tracer_New c ctx ''Client.GetUpload'' [];
          t1 = observed_enter ''Client.GetUpload'' (tele s);
          began = time_Now c (inner s);
          ((path, err), w') = cb_GetUpload (oc_base c) ctx1 bundleID dir (inner s);
          secs = time_Now c w' - began
      in ((path, err),
          \<lparr>inner = w', tele = observed_exit m_GetUpload_update ''client.get-upload'' secs err t1\<rparr>))"

definition ObservedClient_SendDB ::
  "('w, 'c) ObservedClient \<Rightarrow> 'c \<Rightarrow> int \<Rightarrow> string \<Rightarrow> 'w observed \<Rightarrow> error option \<times> 'w observed" where
  "ObservedClient_SendDB c ctx bundleID r s =
     (let ctx1 = tracer_New c ctx ''Client.SendDB'' [];
          t1 = observed_enter ''Client.SendDB'' (tele s);
          began = time_Now c (inner s);
          (err, w') = cb_SendDB (oc_base c) ctx1 bundleID r (inner s);
          secs = time_Now c w' - began
      in (err, \<lparr>inner = w', tele = observed_exit m_SendDB_update ''client.send-db'' secs err t1\<rparr>))"

definition ObservedClient_QueryBundle ::
  "('w, 'c) ObservedClient \<Rightarrow> 'c \<Rightarrow> int \<Rightarrow> string \<Rightarrow> (string, gvalue) gomap \<Rightarrow> target \<Rightarrow> 'w observed
     \<Rightarrow> error option \<times> 'w observed" where
  "ObservedClient_QueryBundle c ctx bundleID op qs tgt s =
     (let ctx1 = tracer_New c ctx ''Client.QueryBundle'' [];
          t1 = observed_enter ''Client.QueryBundle'' (tele s);
          began = time_Now c (inner s);
          (err, w') = cb_QueryBundle (oc_base c) ctx1 bundleID op qs (AddrOf tgt) (inner s);
          secs = time_Now c w' - began
      in (err, \<lparr>inner = w', tele = observed_exit m_QueryBundle_update ''client.query-bundle'' secs err t1\<rparr>))"

text \<open>
  The \<^verbatim>\<open>clientImpl\<close> at address \<open>self\<close> as a \<^verbatim>\<open>ClientBase\<close>.  In \<^verbatim>\<open>client.go\<close> as it is
  among the sources the query method of \<^verbatim>\<open>clientImpl\<close> is named \<^verbatim>\<open>queryBundle\<close>; it stands
  for \<^verbatim>\<open>QueryBundle\<close> here.
\<close>

definition clientImpl_ClientBase :: "net \<Rightarrow> ptr \<Rightarrow> clientImpl \<Rightarrow> (cworld, gocontext) ClientBase" where
  "clientImpl_ClientBase nt self c =
     \<lparr>cb_ptr = self, cb_BundleClient = clientImpl_BundleClient self c,
      cb_SendUpload = SendUpload nt c, cb_GetUpload = GetUpload nt c, cb_SendDB = SendDB nt c,
      cb_QueryBundle = queryBundle nt c\<rparr>"

subsection \<open>Notions the properties of the client are stated with\<close>

text \<open>How often a response body was closed between two worlds.\<close>

definition closes_since :: "cworld \<Rightarrow> cworld \<Rightarrow> nat" where
  "closes_since w w' = length (filter (\<lambda>e. e = BodyClose) (drop (length (ctrace w)) (ctrace w')))"

text \<open>The errors made with \<^verbatim>\<open>fmt.Errorf\<close>; the client makes one, for a status that is not OK.\<close>

fun is_Errorf :: "error \<Rightarrow> bool" where
  "is_Errorf (Errorf m) = True"
| "is_Errorf e = False"

text \<open>What \<^verbatim>\<open>do\<close> adds to the trace around the exchange.\<close>

definition do_before :: "clientImpl \<Rightarrow> request \<Rightarrow> cevent list" where
  "do_before c req =
     (case httpLimiter c of None \<Rightarrow> [] | Some n \<Rightarrow> [LimiterAcquire, SpanLogKV ''event'' ''Acquired HTTP limiter''])
       @ [TraceRequest, RoundTrip req]"

definition do_after :: "clientImpl \<Rightarrow> cevent list" where
  "do_after c = TraceFinish # (case httpLimiter c of None \<Rightarrow> [] | Some n \<Rightarrow> [LimiterRelease])"

definition do_request :: "clientImpl \<Rightarrow> gocontext \<Rightarrow> string \<Rightarrow> URL \<Rightarrow> string option \<Rightarrow> request" where
  "do_request c ctx method u payload =
     \<lparr>Method = method, Target = URL_String u,
      Header = [(''Content-Type'', ''application/json''), (''User-Agent'', userAgent c)],
      Payload = payload, Ctx = ctx\<rparr>"

text \<open>The loop of \<^verbatim>\<open>makeURL\<close> over the query map, from the values collected so far.\<close>

definition collect :: "(string, gvalue) gomap \<Rightarrow> (string, string list) gomap \<Rightarrow> (string, string list) gomap" where
  "collect qs values = fold (\<lambda>(k, v) values. map_assign values k [sprint_v v]) qs values"

subsection \<open>Worlds and operating systems to run the model on\<close>

definition w0 :: world where
  "w0 = \<lparr>fs = {''repos'', ''indexes''}, trace = [], stdout = []\<rparr>"

text \<open>The world in which the repository \<open>zap\<close> of the corpus is cloned already.\<close>

definition w0_zap :: world where
  "w0_zap = \<lparr>fs = {''repos'', ''indexes'', ''repos/zap''}, trace = [], stdout = []\<rparr>"

text \<open>
  An operating system on which \<^verbatim>\<open>stat\<close> never faults, the command named \<open>bad\<close> fails
  when \<open>on\<close> is empty or holds one of its arguments, \<^verbatim>\<open>cp\<close> puts a file into its target
  and \<^verbatim>\<open>lsif-go\<close> writes its output file.
\<close>

definition proc_sim :: "string \<Rightarrow> string list \<Rightarrow> world \<Rightarrow> string \<Rightarrow> string \<Rightarrow> string list \<Rightarrow> string \<times> string option \<times> string set" where
  "proc_sim bad on w dir command args =
     (if command = bad \<and> (on = [] \<or> list_ex (\<lambda>a. a \<in> set on) args) then (''boom'', Some ''exit status 1'', fs w)
      else if command = ''cp'' then ([], None, insert (filepath_Join (last args) ''go.mod'') (fs w))
      else if command = ''lsif-go'' then ([], None, insert (last args) (fs w))
      else ([], None, fs w))"

definition os_sim :: "string \<Rightarrow> string list \<Rightarrow> os" where
  "os_sim bad on = \<lparr>stat_fault = (\<lambda>w p. None), proc = proc_sim bad on,
     temp_name = (\<lambda>dir w. Inr (filepath_Join dir ''tmp0'')), getwd = Inr ''/work''\<rparr>"

text \<open>An operating system on which the clones of two repositories of the corpus fail.\<close>

definition os_clone_fails :: os where
  "os_clone_fails =
     os_sim ''git'' [''https://github.com/influxdata/influxdb.git'', ''https://github.com/etcd-io/etcd.git'']"

definition os_denied :: os where
  "os_denied = (os_sim [] [])\<lparr>stat_fault := (\<lambda>w p. Some ''permission denied'')\<rparr>"

definition zap :: Repo where
  "zap = \<lparr>owner = ''uber-go'', name = ''zap'', revs = [''a6015e1'', ''2aa9fa2'']\<rparr>"


text \<open>A parser for URLs without query and fragment, which are all the client builds.\<close>

definition parse_plain :: parser where
  "parse_plain s =
     (if CHR ''?'' \<in> set s \<or> CHR ''#'' \<in> set s \<or> CHR '' '' \<in> set s then Inl ''invalid character in URL''
      else Inr \<lparr>Front = s, ForceQuery = False, RawQuery = [], Fragment = []\<rparr>)"


text \<open>
  A network on which the bundle manager answers every request with the given status and
  body, and libraries that do not fail.
\<close>

definition net_sim :: "int \<Rightarrow> body \<Rightarrow> net" where
  "net_sim code b =
     \<lparr>url_Parse = parse_plain, NewRequest_fault = (\<lambda>method u. None),
      Do = (\<lambda>req w. Inr \<lparr>StatusCode = code, Body = b\<rparr>),
      uuid_NewRandom = (\<lambda>w. Inr ''0b5c3a1e''), Create_fault = (\<lambda>p. None),
      Write_fault = (\<lambda>p. None), Close_fault = (\<lambda>p. None), Decode = (\<lambda>b. Inr (bytes b))\<rparr>"

definition cw0 :: cworld where
  "cw0 = \<lparr>cfiles = Map.empty, ctrace = [], decoded = Map.empty\<rparr>"

definition client0 :: clientImpl where
  "client0 = \<lparr>url = ''http://bm:3187'', httpLimiter = Some 500, userAgent = ''worker''\<rparr>"

definition dump :: body where
  "dump = \<lparr>bytes = ''lsif dump'', read_err = None\<rparr>"

definition broken :: body where
  "broken = \<lparr>bytes = ''lsif'', read_err = Some ''unexpected EOF''\<rparr>"

definition tele0 :: telemetry where
  "tele0 = \<lparr>metrics = \<lparr>m_SendUpload = Some \<lparr>Duration = [], Count = 0, Errors = 0\<rparr>,
                        m_GetUpload = Some \<lparr>Duration = [], Count = 0, Errors = 0\<rparr>,
                        m_SendDB = None,
                        m_QueryBundle = Some \<lparr>Duration = [], Count = 0, Errors = 0\<rparr>\<rparr>,
            logged = [], traced = []\<rparr>"

text \<open>
  An observed client at address 2 around the client at address 1, with a clock that
  advances with the events of the wrapped client.
\<close>

definition observed0 :: "net \<Rightarrow> (cworld, gocontext) ObservedClient" where
  "observed0 nt =
     \<lparr>oc_base = clientImpl_ClientBase nt 1 client0,
      tracer_New = (\<lambda>ctx family title. family # ctx),
      time_Now = (\<lambda>w. 1000 * int (length (ctrace w)))\<rparr>"


section \<open>Properties of the orchestrator\<close>

subsection \<open>What a task leaves in the trace\<close>

lemma runCommand_trace:
  "runCommand sys dir command args w = (r, w') \<Longrightarrow> trace w' = trace w @ [Exec dir command args]"
  by (auto simp: runCommand_def Let_def split: prod.splits option.splits)

lemma runCommand_trace_snd:
  "trace (snd (runCommand sys dir command args w)) = trace w @ [Exec dir command args]"
  using runCommand_trace [of sys dir command args w] by (cases "runCommand sys dir command args w") simp

lemma run_commands_trace:
  "run_commands sys cs w = (r, w') \<Longrightarrow>
     \<exists>k\<le>length cs. trace w' = trace w @ map exec_event (take k cs)
        \<and> (r = None \<longrightarrow> k = length cs) \<and> (r \<noteq> None \<longrightarrow> 0 < k)"
proof (induction cs arbitrary: w)
  case Nil
  then show ?case by simp
next
  case (Cons c cs)
  obtain dir command args where c: "c = (dir, command, args)" by (cases c) auto
  obtain r1 w1 where step: "runCommand sys dir command args w = (r1, w1)" by fastforce
  have t1: "trace w1 = trace w @ [exec_event c]"
    using runCommand_trace [OF step] c by simp
  show ?case
  proof (cases r1)
    case None
    with Cons.prems c step have "run_commands sys cs w1 = (r, w')" by simp
    from Cons.IH [OF this] obtain k where k: "k \<le> length cs"
      "trace w' = trace w1 @ map exec_event (take k cs)"
      "r = None \<longrightarrow> k = length cs" by blast
    then have "Suc k \<le> length (c # cs) \<and> trace w' = trace w @ map exec_event (take (Suc k) (c # cs))
        \<and> (r = None \<longrightarrow> Suc k = length (c # cs)) \<and> (r \<noteq> None \<longrightarrow> 0 < Suc k)"
      using t1 by simp
    then show ?thesis by blast
  next
    case (Some e)
    with Cons.prems c step have "r = Some e" "w' = w1" by simp_all
    then have "Suc 0 \<le> length (c # cs) \<and> trace w' = trace w @ map exec_event (take (Suc 0) (c # cs))
        \<and> (r = None \<longrightarrow> Suc 0 = length (c # cs)) \<and> (r \<noteq> None \<longrightarrow> 0 < Suc 0)"
      using t1 by simp
    then show ?thesis by blast
  qed
qed

text \<open>
  The exits of \<^verbatim>\<open>index\<close>: once the workspace is made, a first part of the commands is
  run and the workspace is removed; on every other path the world is left as it was.
\<close>

lemma index_ran:
  assumes "filepath_Abs sys (index_file nm rv) = Inr p" and "os_Stat sys w p = Some e"
    and "os_IsNotExist e" and "temp_name sys ''.'' w = Inr d"
    and "index sys ownr nm rv w = (r, w')"
  shows "\<exists>k. 0 < k \<and> k \<le> 4 \<and> (r = None \<longrightarrow> k = 4)
       \<and> trace w' = trace w @ [TempDir d] @ map exec_event (take k (index_commands d nm rv p)) @ [RemoveAll d]
       \<and> (\<forall>x\<in>fs w'. \<not> lies_under d x)"
proof -
  define w1 where "w1 = w\<lparr>fs := insert d (fs w), trace := trace w @ [TempDir d]\<rparr>"
  define w2 where "w2 = printf (''Indexing '' @ ownr @ ''/'' @ nm @ '' at '' @ rv @ [CHR 0x0A]) w1"
  obtain r3 w3 where rc: "run_commands sys (index_commands d nm rv p) w2 = (r3, w3)" by fastforce
  have td: "ioutil_TempDir sys ''.'' w = (Inr d, w1)"
    using assms(4) by (simp add: ioutil_TempDir_def w1_def)
  have res: "r = r3" "w' = os_RemoveAll d w3"
    using assms(1-3,5) td rc by (simp_all add: index_def w2_def Let_def)
  from run_commands_trace [OF rc] obtain k where k: "k \<le> length (index_commands d nm rv p)"
    "trace w3 = trace w2 @ map exec_event (take k (index_commands d nm rv p))"
    "r3 = None \<longrightarrow> k = length (index_commands d nm rv p)" "r3 \<noteq> None \<longrightarrow> 0 < k" by blast
  have len: "length (index_commands d nm rv p) = 4" by (simp add: index_commands_def Let_def)
  have "trace w' = trace w @ [TempDir d] @ map exec_event (take k (index_commands d nm rv p)) @ [RemoveAll d]"
    using k(2) res(2) by (simp add: os_RemoveAll_def w2_def printf_def w1_def)
  moreover have "\<forall>x\<in>fs w'. \<not> lies_under d x" using res(2) by (simp add: os_RemoveAll_def)
  moreover have "k \<le> 4" "0 < k" "r = None \<longrightarrow> k = 4" using k len res(1) by auto
  ultimately show ?thesis by blast
qed

lemma index_exit:
  assumes "index sys ownr nm rv w = (r, w')"
  shows "w' = w \<or>
    (\<exists>d p k. trace w' = trace w @ [TempDir d] @ map exec_event (take k (index_commands d nm rv p)) @ [RemoveAll d]
       \<and> (\<forall>x\<in>fs w'. \<not> lies_under d x))"
proof (cases "filepath_Abs sys (index_file nm rv)")
  case (Inl e)
  with assms show ?thesis by (simp add: index_def)
next
  case (Inr p)
  show ?thesis
  proof (cases "os_Stat sys w p")
    case None
    with assms Inr show ?thesis by (simp add: index_def)
  next
    case (Some e)
    show ?thesis
    proof (cases "os_IsNotExist e")
      case False
      with assms Inr Some show ?thesis by (simp add: index_def)
    next
      case True
      show ?thesis
      proof (cases "temp_name sys ''.'' w")
        case (Inl m)
        with assms Inr Some True show ?thesis by (simp add: index_def ioutil_TempDir_def)
      next
        case d: (Inr d)
        from index_ran [OF Inr Some True d assms] obtain k where
          "trace w' = trace w @ [TempDir d] @ map exec_event (take k (index_commands d nm rv p)) @ [RemoveAll d]"
          "\<forall>x\<in>fs w'. \<not> lies_under d x" by blast
        then have "\<exists>d p k. trace w' = trace w @ [TempDir d] @ map exec_event (take k (index_commands d nm rv p)) @ [RemoveAll d]
            \<and> (\<forall>x\<in>fs w'. \<not> lies_under d x)"
          by (intro exI [of _ d] exI [of _ p] exI [of _ k]) simp
        then show ?thesis ..
      qed
    qed
  qed
qed

subsection \<open>The existence checks\<close>

text \<open>
  C3, as the claim states it, fails: on an operating system whose \<^verbatim>\<open>stat\<close> is denied, a
  failure that is not a not-found error, neither check returns nil.
\<close>

theorem stat_error_counterexample:
  "os_Stat os_denied w0 (filepath_Join ''repos'' (name zap)) = Some (EOS ''stat'' ''permission denied'')
   \<and> \<not> os_IsNotExist (EOS ''stat'' ''permission denied'')
   \<and> fst (ensureCloned os_denied zap w0) \<noteq> None
   \<and> fst (index os_denied ''uber-go'' ''zap'' ''a6015e1'' w0) \<noteq> None"
  by code_simp

text \<open>
  C3, amended.  In the clone task and in the index task, when the existence \<^verbatim>\<open>stat\<close>
  fails with an error other than not-found, the task skips its work, leaving the world as
  it is, and returns that error to its caller.
\<close>

theorem stat_error_propagated:
  "(os_Stat sys w (filepath_Join ''repos'' (name repo)) = Some e \<and> \<not> os_IsNotExist e
      \<longrightarrow> ensureCloned sys repo w = (Some e, w))
   \<and> (filepath_Abs sys (index_file nm rv) = Inr p \<and> os_Stat sys w p = Some e' \<and> \<not> os_IsNotExist e'
      \<longrightarrow> index sys ownr nm rv w = (Some e', w))"
  by (simp add: ensureCloned_def index_def)

theorem stat_error_propagated_witness:
  "os_Stat os_denied w0 (filepath_Join ''repos'' (name zap)) = Some (EOS ''stat'' ''permission denied'')
   \<and> \<not> os_IsNotExist (EOS ''stat'' ''permission denied'')
   \<and> ensureCloned os_denied zap w0 = (Some (EOS ''stat'' ''permission denied''), w0)
   \<and> filepath_Abs os_denied (index_file ''zap'' ''a6015e1'') = Inr ''/work/indexes/zap.a6015e1.dump''
   \<and> os_Stat os_denied w0 ''/work/indexes/zap.a6015e1.dump'' = Some (EOS ''stat'' ''permission denied'')
   \<and> index os_denied ''uber-go'' ''zap'' ''a6015e1'' w0 = (Some (EOS ''stat'' ''permission denied''), w0)"
proof -
  have h1: "os_Stat os_denied w0 (filepath_Join ''repos'' (name zap)) = Some (EOS ''stat'' ''permission denied'')"
    by code_simp
  have h2: "\<not> os_IsNotExist (EOS ''stat'' ''permission denied'')" by simp
  have h3: "filepath_Abs os_denied (index_file ''zap'' ''a6015e1'') = Inr ''/work/indexes/zap.a6015e1.dump''"
    by code_simp
  have h4: "os_Stat os_denied w0 ''/work/indexes/zap.a6015e1.dump'' = Some (EOS ''stat'' ''permission denied'')"
    by code_simp
  note t = stat_error_propagated [of os_denied w0 zap "EOS ''stat'' ''permission denied''" "''zap''" "''a6015e1''"
      "''/work/indexes/zap.a6015e1.dump''" "EOS ''stat'' ''permission denied''" "''uber-go''"]
  note c1 = t [THEN conjunct1, THEN mp, OF conjI [OF h1 h2]]
  note c2 = t [THEN conjunct2, THEN mp, OF conjI [OF h3 conjI [OF h4 h2]]]
  show ?thesis
    by (intro conjI) (rule h1 h2 h3 h4 c1 c2)+
qed


subsection \<open>Fan-out and fan-in\<close>

text \<open>
  With room in the channel for every result and units that return, the goroutines all
  run, none blocks, and the channel holds the results of the units in the order in which
  they completed.
\<close>

lemma go_all_run_all:
  "length errs + length ts \<le> cap \<Longrightarrow> \<forall>t\<in>set ts. \<forall>w. t w \<noteq> None \<Longrightarrow>
     \<exists>rs w'. run_all ts w = Some (rs, w') \<and> go_all cap ts errs w = Some (errs @ rs, w')
        \<and> length rs = length ts"
proof (induction ts arbitrary: errs w)
  case Nil
  then show ?case by simp
next
  case (Cons t ts)
  from Cons.prems(2) obtain r w1 where t: "t w = Some (r, w1)" by fastforce
  have "length (errs @ [r]) + length ts \<le> cap" using Cons.prems(1) by simp
  moreover have "\<forall>t\<in>set ts. \<forall>w. t w \<noteq> None" using Cons.prems(2) by simp
  ultimately obtain rs w' where ih: "run_all ts w1 = Some (rs, w')"
      "go_all cap ts (errs @ [r]) w1 = Some ((errs @ [r]) @ rs, w')" "length rs = length ts"
    using Cons.IH by blast
  have "length errs < cap" using Cons.prems(1) by simp
  then show ?case using t ih by (simp add: chan_send_def)
qed

lemma drain_first_error: "first_error_of errs (drain errs)"
proof (induction errs rule: drain.induct)
  case 1
  then show ?case by (simp add: first_error_of_def)
next
  case (2 errs)
  then have a: "(drain errs = None) = (\<forall>r\<in>set errs. r = None)"
    and b: "\<And>e. drain errs = Some e \<Longrightarrow> \<exists>k<length errs. errs ! k = Some e \<and> (\<forall>j<k. errs ! j = None)"
    by (auto simp: first_error_of_def)
  have "\<exists>k<length (None # errs). (None # errs) ! k = Some e \<and> (\<forall>j<k. (None # errs) ! j = None)"
    if "drain errs = Some e" for e
  proof -
    from b [OF that] obtain k where k: "k < length errs" "errs ! k = Some e" "\<forall>j<k. errs ! j = None"
      by blast
    have "\<forall>j<Suc k. (None # errs) ! j = None"
      using k(3) by (auto simp: nth_Cons split: nat.splits)
    then show ?thesis using k by (intro exI [of _ "Suc k"]) simp
  qed
  then show ?case using a by (simp add: first_error_of_def)
next
  case (3 err errs)
  have "\<exists>k<length (Some err # errs). (Some err # errs) ! k = Some err \<and> (\<forall>j<k. (Some err # errs) ! j = None)"
    by (intro exI [of _ 0]) simp
  then show ?case by (simp add: first_error_of_def)
qed

lemma fan_out_result:
  assumes "length tasks \<le> cap" and "\<forall>t\<in>set tasks. \<forall>w. t w \<noteq> None"
  shows "\<exists>errs w'. run_all tasks w = Some (errs, w') \<and> length errs = length tasks
           \<and> fan_out cap tasks w = Some (drain errs, w') \<and> first_error_of errs (drain errs)"
proof -
  from go_all_run_all [of "[]" tasks cap w] assms
  obtain rs w' where "run_all tasks w = Some (rs, w')" "go_all cap tasks [] w = Some (rs, w')"
    "length rs = length tasks" by auto
  then show ?thesis using drain_first_error [of rs] by (simp add: fan_out_def)
qed

lemma total_revs:
  "fold (\<lambda>repo total. total + length (revs repo)) rs n
     = n + length (concat (map (\<lambda>repo. map (Pair repo) (revs repo)) rs))"
  by (induction rs arbitrary: n) simp_all

text \<open>
  C2.  For each of the three fan-outs (one goroutine per repository in
  \<^verbatim>\<open>parallelForRepo\<close>, per revision in \<^verbatim>\<open>ensureIndexed\<close>, per repository and revision in
  \<^verbatim>\<open>ensureAllUploaded\<close>) and every order in which the goroutines complete: the barrier is
  passed, no send blocks, every one of the N units has run to its end whatever the others
  returned, and the channel holds their N results in completion order; the result of the
  phase is nil exactly when all N results are nil, and otherwise it is the first result
  in completion order that is not nil.
\<close>

theorem fan_out_aggregates:
  "(mset completion = mset repos \<and> (\<forall>repo w. f repo w \<noteq> None) \<longrightarrow>
      (\<exists>errs w'. run_all (map f completion) w = Some (errs, w') \<and> length errs = length repos
         \<and> parallelForRepo f completion w = Some (drain errs, w')
         \<and> first_error_of errs (drain errs)))
   \<and> (mset rev_completion = mset (revs repo) \<longrightarrow>
      (\<exists>errs w'. run_all (map (\<lambda>rv w. Some (index sys (owner repo) (name repo) rv w)) rev_completion) w
            = Some (errs, w') \<and> length errs = length (revs repo)
         \<and> ensureIndexed sys repo rev_completion w = Some (drain errs, w')
         \<and> first_error_of errs (drain errs)))
   \<and> (mset upload_completion = mset upload_units \<longrightarrow>
      (\<exists>errs w'. run_all (map (\<lambda>(repo, rv) w. Some (upload sys (owner repo) (name repo) rv w))
              upload_completion) w = Some (errs, w') \<and> length errs = length upload_units
         \<and> ensureAllUploaded sys upload_completion w = Some (drain errs, w')
         \<and> first_error_of errs (drain errs)))"
proof (intro conjI impI)
  assume a: "mset completion = mset repos \<and> (\<forall>repo w. f repo w \<noteq> None)"
  then have "length (map f completion) \<le> length repos"
    using mset_eq_length [of completion repos] by simp
  moreover have "\<forall>t\<in>set (map f completion). \<forall>w. t w \<noteq> None" using a by auto
  ultimately show "\<exists>errs w'. run_all (map f completion) w = Some (errs, w') \<and> length errs = length repos
         \<and> parallelForRepo f completion w = Some (drain errs, w')
         \<and> first_error_of errs (drain errs)"
    using fan_out_result [of "map f completion" "length repos" w] mset_eq_length [of completion repos] a
    by (auto simp: parallelForRepo_def)
next
  let ?ts = "map (\<lambda>rv w. Some (index sys (owner repo) (name repo) rv w)) rev_completion"
  assume a: "mset rev_completion = mset (revs repo)"
  then have l: "length ?ts = length (revs repo)"
    using mset_eq_length [of rev_completion "revs repo"] by simp
  have "\<forall>t\<in>set ?ts. \<forall>w. t w \<noteq> None" by auto
  then show "\<exists>errs w'. run_all ?ts w = Some (errs, w') \<and> length errs = length (revs repo)
         \<and> ensureIndexed sys repo rev_completion w = Some (drain errs, w')
         \<and> first_error_of errs (drain errs)"
    using fan_out_result [of ?ts "length (revs repo)" w] l
    by (auto simp: ensureIndexed_def)
next
  let ?ts = "map (\<lambda>(repo, rv) w. Some (upload sys (owner repo) (name repo) rv w)) upload_completion"
  let ?total = "fold (\<lambda>repo total. total + length (revs repo)) repos 0"
  assume a: "mset upload_completion = mset upload_units"
  have t: "?total = length upload_units" by (simp add: total_revs upload_units_def)
  have l: "length ?ts = length upload_units"
    using mset_eq_length [OF a] by simp
  have "\<forall>t\<in>set ?ts. \<forall>w. t w \<noteq> None" by auto
  then show "\<exists>errs w'. run_all ?ts w = Some (errs, w') \<and> length errs = length upload_units
         \<and> ensureAllUploaded sys upload_completion w = Some (drain errs, w')
         \<and> first_error_of errs (drain errs)"
    using fan_out_result [of ?ts "length upload_units" w] l t
    by (auto simp: ensureAllUploaded_def Let_def)
qed

text \<open>
  The theorem at work: two clones fail, and the phase returns the error of the one whose
  goroutine completes first, whichever was started first.
\<close>

theorem fan_out_aggregates_witness:
  "mset (rev repos) = mset repos
   \<and> (\<forall>repo w. Some (ensureCloned os_clone_fails repo w) \<noteq> None)
   \<and> (\<exists>errs w'. run_all (map (\<lambda>repo w. Some (ensureCloned os_clone_fails repo w)) (rev repos)) w0
           = Some (errs, w') \<and> length errs = length repos
         \<and> parallelForRepo (\<lambda>repo w. Some (ensureCloned os_clone_fails repo w)) (rev repos) w0
           = Some (drain errs, w')
         \<and> first_error_of errs (drain errs))
   \<and> map_option fst (ensureAllCloned os_clone_fails (rev repos) w0) =
        Some (Some (Wrapped (ExitError ''exit status 1'')
          (''error running '' @ [CHR 0x27] @ ''git clone https://github.com/etcd-io/etcd.git''
             @ [CHR 0x27] @ '':'' @ [CHR 0x0A] @ ''boom'' @ [CHR 0x0A])))
   \<and> map_option fst (ensureAllCloned os_clone_fails repos w0) =
        Some (Some (Wrapped (ExitError ''exit status 1'')
          (''error running '' @ [CHR 0x27] @ ''git clone https://github.com/influxdata/influxdb.git''
             @ [CHR 0x27] @ '':'' @ [CHR 0x0A] @ ''boom'' @ [CHR 0x0A])))
   \<and> mset (rev (revs zap)) = mset (revs zap)
   \<and> (\<exists>errs w'. run_all (map (\<lambda>rv w. Some (index os_clone_fails (owner zap) (name zap) rv w))
           (rev (revs zap))) w0 = Some (errs, w') \<and> length errs = length (revs zap)
         \<and> ensureIndexed os_clone_fails zap (rev (revs zap)) w0 = Some (drain errs, w')
         \<and> first_error_of errs (drain errs))
   \<and> mset (rev upload_units) = mset upload_units
   \<and> (\<exists>errs w'. run_all (map (\<lambda>(repo, rv) w. Some (upload os_clone_fails (owner repo) (name repo) rv w))
           (rev upload_units)) w0 = Some (errs, w') \<and> length errs = length upload_units
         \<and> ensureAllUploaded os_clone_fails (rev upload_units) w0 = Some (drain errs, w')
         \<and> first_error_of errs (drain errs))"
proof -
  note t = fan_out_aggregates [of "rev repos" "\<lambda>repo w. Some (ensureCloned os_clone_fails repo w)" w0
      "rev (revs zap)" zap os_clone_fails "rev upload_units"]
  have h1: "mset (rev repos) = mset repos" by (rule mset_rev)
  have h2: "\<forall>repo w. Some (ensureCloned os_clone_fails repo w) \<noteq> None" by simp
  have h3: "mset (rev (revs zap)) = mset (revs zap)" by (rule mset_rev)
  have h4: "mset (rev upload_units) = mset upload_units" by (rule mset_rev)
  note c1 = t [THEN conjunct1, THEN mp, OF conjI [OF h1 h2]]
  note c2 = t [THEN conjunct2, THEN conjunct1, THEN mp, OF h3]
  note c3 = t [THEN conjunct2, THEN conjunct2, THEN mp, OF h4]
  have v1: "map_option fst (ensureAllCloned os_clone_fails (rev repos) w0) =
        Some (Some (Wrapped (ExitError ''exit status 1'')
          (''error running '' @ [CHR 0x27] @ ''git clone https://github.com/etcd-io/etcd.git''
             @ [CHR 0x27] @ '':'' @ [CHR 0x0A] @ ''boom'' @ [CHR 0x0A])))"
    by code_simp
  have v2: "map_option fst (ensureAllCloned os_clone_fails repos w0) =
        Some (Some (Wrapped (ExitError ''exit status 1'')
          (''error running '' @ [CHR 0x27] @ ''git clone https://github.com/influxdata/influxdb.git''
             @ [CHR 0x27] @ '':'' @ [CHR 0x0A] @ ''boom'' @ [CHR 0x0A])))"
    by code_simp
  show ?thesis
    by (intro conjI) (rule h1 h2 c1 v1 v2 h3 c2 h4 c3)+
qed

subsection \<open>The clone phase\<close>

lemma ensureCloned_cases:
  "ensureCloned sys repo w =
     (if stat_fault sys w (filepath_Join ''repos'' (name repo)) = None
         \<and> filepath_Join ''repos'' (name repo) \<notin> fs w
      then runCommand sys ''repos'' ''git''
             [''clone'', ''https://github.com/'' @ owner repo @ ''/'' @ name repo @ ''.git'']
             (printf (''Cloning '' @ owner repo @ ''/'' @ name repo @ [CHR 0x0A]) w)
      else (os_Stat sys w (filepath_Join ''repos'' (name repo)), w))"
  by (simp add: ensureCloned_def os_Stat_def Let_def split: option.splits)

lemma run_all_clone_trace:
  "run_all (map (\<lambda>repo w. Some (ensureCloned sys repo w)) rs) w = Some (errs, w')
     \<Longrightarrow> trace w' = trace w @ clone_attempts sys rs w"
proof (induction rs arbitrary: w errs)
  case Nil
  then show ?case by simp
next
  case (Cons repo rs)
  obtain r w1 where step: "ensureCloned sys repo w = (r, w1)" by fastforce
  from Cons.prems step obtain errs' where rest:
    "run_all (map (\<lambda>repo w. Some (ensureCloned sys repo w)) rs) w1 = Some (errs', w')"
    by (auto split: option.splits)
  note ih = Cons.IH [OF rest]
  show ?case
  proof (cases "stat_fault sys w (filepath_Join ''repos'' (name repo)) = None
         \<and> filepath_Join ''repos'' (name repo) \<notin> fs w")
    case True
    with step have w1: "w1 = snd (runCommand sys ''repos'' ''git''
             [''clone'', ''https://github.com/'' @ owner repo @ ''/'' @ name repo @ ''.git'']
             (printf (''Cloning '' @ owner repo @ ''/'' @ name repo @ [CHR 0x0A]) w))"
      unfolding ensureCloned_cases by simp
    have "trace w1 = trace w @ [Exec ''repos'' ''git''
             [''clone'', ''https://github.com/'' @ owner repo @ ''/'' @ name repo @ ''.git'']]"
      unfolding w1 runCommand_trace_snd by (simp add: printf_def)
    with ih True w1 show ?thesis by simp
  next
    case False
    with step have "w1 = w" unfolding ensureCloned_cases by auto
    with ih False show ?thesis by auto
  qed
qed

text \<open>
  C8, as the claim states it, fails: the directory \<open>repos/zap\<close> does not exist, \<^verbatim>\<open>stat\<close>
  is denied, and the clone task makes no clone attempt, where the claim has exactly one;
  the clone phase over the corpus, none of whose directories exists, makes none either.
\<close>

theorem clone_attempts_counterexample:
  "filepath_Join ''repos'' (name zap) \<notin> fs w0
   \<and> trace (snd (ensureCloned os_denied zap w0)) = []
   \<and> fst (ensureCloned os_denied zap w0) = Some (EOS ''stat'' ''permission denied'')
   \<and> list_all (\<lambda>repo. filepath_Join ''repos'' (name repo) \<notin> fs w0) repos
   \<and> map_option (trace \<circ> snd) (ensureAllCloned os_denied repos w0) = Some []"
  by code_simp

text \<open>
  C8, amended.  For every repository, with \<open>dir\<close> its directory \<open>repos/name\<close> and \<open>addr\<close>
  its address \<open>https://github.com/owner/name.git\<close>: on a \<^verbatim>\<open>stat\<close> that does not fault,
  the clone task returns nil and starts no subprocess when \<open>dir\<close> exists, and when \<open>dir\<close>
  does not exist it is one call of \<^verbatim>\<open>runCommand\<close>, \<open>git clone addr\<close> run in \<open>repos\<close>, whose
  result it returns, and that subprocess is the one event it adds to the trace; on a
  \<^verbatim>\<open>stat\<close> that faults the task makes no attempt and returns the fault.  The clone phase
  over the corpus, in whatever order its tasks complete, returns, and what it adds to the
  trace is the clone attempts of its tasks and nothing else: one for each repository of
  the corpus whose directory is absent when its task looks on a \<^verbatim>\<open>stat\<close> that does not
  fault, none for any other.
\<close>

theorem clone_phase_attempts:
  assumes "dir = filepath_Join ''repos'' (name repo)"
    and "addr = ''https://github.com/'' @ owner repo @ ''/'' @ name repo @ ''.git''"
  shows "(stat_fault sys w dir = None \<and> dir \<in> fs w \<longrightarrow> ensureCloned sys repo w = (None, w))
   \<and> (stat_fault sys w dir = None \<and> dir \<notin> fs w \<longrightarrow>
        ensureCloned sys repo w =
          runCommand sys ''repos'' ''git'' [''clone'', addr]
            (printf (''Cloning '' @ owner repo @ ''/'' @ name repo @ [CHR 0x0A]) w)
        \<and> trace (snd (ensureCloned sys repo w)) = trace w @ [Exec ''repos'' ''git'' [''clone'', addr]])
   \<and> (stat_fault sys w dir = Some m \<longrightarrow> ensureCloned sys repo w = (Some (EOS ''stat'' m), w))
   \<and> (mset completion = mset repos \<longrightarrow>
        (\<exists>agg w'. ensureAllCloned sys completion w = Some (agg, w')
           \<and> trace w' = trace w @ clone_attempts sys completion w))"
proof (intro conjI impI)
  assume "stat_fault sys w dir = None \<and> dir \<in> fs w"
  then show "ensureCloned sys repo w = (None, w)"
    unfolding ensureCloned_cases by (simp add: assms(1) os_Stat_def)
next
  assume a: "stat_fault sys w dir = None \<and> dir \<notin> fs w"
  then show "ensureCloned sys repo w =
      runCommand sys ''repos'' ''git'' [''clone'', addr]
        (printf (''Cloning '' @ owner repo @ ''/'' @ name repo @ [CHR 0x0A]) w)"
    unfolding ensureCloned_cases by (simp add: assms)
  then show "trace (snd (ensureCloned sys repo w)) = trace w @ [Exec ''repos'' ''git'' [''clone'', addr]]"
    by (simp add: runCommand_trace_snd printf_def)
next
  assume "stat_fault sys w dir = Some m"
  then show "ensureCloned sys repo w = (Some (EOS ''stat'' m), w)"
    unfolding ensureCloned_cases by (simp add: assms(1) os_Stat_def)
next
  let ?ts = "map (\<lambda>repo w. Some (ensureCloned sys repo w)) completion"
  assume a: "mset completion = mset repos"
  have l: "length ?ts \<le> length repos" using mset_eq_length [OF a] by simp
  have "\<forall>t\<in>set ?ts. \<forall>w. t w \<noteq> None" by auto
  from fan_out_result [OF l this, of w] obtain errs w' where
    r: "run_all ?ts w = Some (errs, w')" and f: "fan_out (length repos) ?ts w = Some (drain errs, w')"
    by blast
  have "ensureAllCloned sys completion w = Some (drain errs, w')"
    using f by (simp add: ensureAllCloned_def parallelForRepo_def)
  moreover have "trace w' = trace w @ clone_attempts sys completion w"
    using r by (rule run_all_clone_trace)
  ultimately show "\<exists>agg w'. ensureAllCloned sys completion w = Some (agg, w')
      \<and> trace w' = trace w @ clone_attempts sys completion w"
    by blast
qed



theorem clone_phase_attempts_witness:
  "''repos/zap'' = filepath_Join ''repos'' (name zap)
   \<and> ''https://github.com/uber-go/zap.git'' = ''https://github.com/'' @ owner zap @ ''/'' @ name zap @ ''.git''
   \<and> stat_fault (os_sim [] []) w0_zap ''repos/zap'' = None \<and> ''repos/zap'' \<in> fs w0_zap
   \<and> ensureCloned (os_sim [] []) zap w0_zap = (None, w0_zap)
   \<and> stat_fault (os_sim [] []) w0 ''repos/zap'' = None \<and> ''repos/zap'' \<notin> fs w0
   \<and> trace (snd (ensureCloned (os_sim [] []) zap w0)) =
        trace w0 @ [Exec ''repos'' ''git'' [''clone'', ''https://github.com/uber-go/zap.git'']]
   \<and> stat_fault os_denied w0 ''repos/zap'' = Some ''permission denied''
   \<and> ensureCloned os_denied zap w0 = (Some (EOS ''stat'' ''permission denied''), w0)
   \<and> mset (rev repos) = mset repos
   \<and> (\<exists>agg w'. ensureAllCloned (os_sim [] []) (rev repos) w0_zap = Some (agg, w')
         \<and> trace w' = trace w0_zap @ clone_attempts (os_sim [] []) (rev repos) w0_zap)
   \<and> clone_attempts (os_sim [] []) (rev repos) w0_zap =
        [Exec ''repos'' ''git'' [''clone'', ''https://github.com/pingcap/tidb.git''],
         Exec ''repos'' ''git'' [''clone'', ''https://github.com/etcd-io/etcd.git''],
         Exec ''repos'' ''git'' [''clone'', ''https://github.com/distributedio/titan.git''],
         Exec ''repos'' ''git'' [''clone'', ''https://github.com/influxdata/influxdb.git'']]"
proof -
  have hd: "''repos/zap'' = filepath_Join ''repos'' (name zap)"
    and ha: "''https://github.com/uber-go/zap.git'' = ''https://github.com/'' @ owner zap @ ''/'' @ name zap @ ''.git''"
    by code_simp+
  have a1: "stat_fault (os_sim [] []) w0_zap ''repos/zap'' = None \<and> ''repos/zap'' \<in> fs w0_zap"
    and a2: "stat_fault (os_sim [] []) w0 ''repos/zap'' = None \<and> ''repos/zap'' \<notin> fs w0"
    and a3: "stat_fault os_denied w0 ''repos/zap'' = Some ''permission denied''"
    by (simp_all add: os_sim_def os_denied_def w0_def w0_zap_def)
  have a4: "mset (rev repos) = mset repos" by (rule mset_rev)
  have v: "clone_attempts (os_sim [] []) (rev repos) w0_zap =
        [Exec ''repos'' ''git'' [''clone'', ''https://github.com/pingcap/tidb.git''],
         Exec ''repos'' ''git'' [''clone'', ''https://github.com/etcd-io/etcd.git''],
         Exec ''repos'' ''git'' [''clone'', ''https://github.com/distributedio/titan.git''],
         Exec ''repos'' ''git'' [''clone'', ''https://github.com/influxdata/influxdb.git'']]"
    by code_simp
  note t1 = clone_phase_attempts [where repo = zap and dir = "''repos/zap''"
      and addr = "''https://github.com/uber-go/zap.git''" and sys = "os_sim [] []" and w = w0_zap
      and completion = "rev repos", OF hd ha]
  note t2 = clone_phase_attempts [where repo = zap and dir = "''repos/zap''"
      and addr = "''https://github.com/uber-go/zap.git''" and sys = "os_sim [] []" and w = w0
      and completion = "rev repos", OF hd ha]
  note t3 = clone_phase_attempts [where repo = zap and dir = "''repos/zap''"
      and addr = "''https://github.com/uber-go/zap.git''" and sys = os_denied and w = w0
      and completion = "rev repos" and m = "''permission denied''", OF hd ha]
  note c1 = t1 [THEN conjunct1, THEN mp, OF a1]
  note c2 = t2 [THEN conjunct2, THEN conjunct1, THEN mp, OF a2, THEN conjunct2]
  note c3 = t3 [THEN conjunct2, THEN conjunct2, THEN conjunct1, THEN mp, OF a3]
  note c4 = t1 [THEN conjunct2, THEN conjunct2, THEN conjunct2, THEN mp, OF a4]
  show ?thesis
    by (intro conjI) (rule hd ha a1 [THEN conjunct1] a1 [THEN conjunct2] a2 [THEN conjunct1]
        a2 [THEN conjunct2] a3 a4 c1 c2 c3 c4 v)+
qed


subsection \<open>The index task\<close>

text \<open>
  C5, as the claim states it, fails: the index file does not exist, the workspace is
  made, \<^verbatim>\<open>cp\<close> fails, and the task ends having run the copy alone: no checkout, no
  vendoring, no indexer.
\<close>

theorem index_steps_counterexample:
  "os_Stat (os_sim ''cp'' []) w0 ''/work/indexes/zap.a6015e1.dump''
      = Some (ENOENT ''/work/indexes/zap.a6015e1.dump'')
   \<and> trace (snd (index (os_sim ''cp'' []) ''uber-go'' ''zap'' ''a6015e1'' w0)) =
       [TempDir ''tmp0'', Exec [] ''cp'' [''-r'', ''repos/zap'', ''tmp0''], RemoveAll ''tmp0'']"
  by code_simp

text \<open>
  C5, amended.  For every repository and revision, with \<open>p\<close> the absolute path of the
  index file \<open>indexes/name.rev.dump\<close> and a \<^verbatim>\<open>stat\<close> that does not fault.  When \<open>p\<close>
  exists, the index task returns nil and leaves the world as it is: no subprocess, no
  workspace.  When \<open>p\<close> does not exist and the workspace cannot be made, the task returns
  the error of making it and leaves the world as it is.  When \<open>p\<close> does not exist and the
  workspace \<open>d\<close> is made, the task runs the copy, the checkout in \<open>d/name\<close>, the vendoring
  and the indexer in that order, each in the world the one before it left, and stops
  at the first that fails: with \<open>r1\<close>, \<open>r2\<close>, \<open>r3\<close>, \<open>r4\<close> the results of the four
  steps, the task returns the first of them that is an error, and \<open>r4\<close> when the first
  three are nil; the subprocesses it has run are exactly the steps up to and including
  that one (all four only when the first three return nil), after which it removes \<open>d\<close>.
\<close>

theorem index_skips_or_runs:
  assumes "filepath_Abs sys (index_file nm rv) = Inr p"
    and "t = filepath_Join d nm"
    and "w2 = printf (''Indexing '' @ ownr @ ''/'' @ nm @ '' at '' @ rv @ [CHR 0x0A])
                (w\<lparr>fs := insert d (fs w), trace := trace w @ [TempDir d]\<rparr>)"
    and "runCommand sys [] ''cp'' [''-r'', filepath_Join ''repos'' nm, d] w2 = (r1, w3)"
    and "runCommand sys t ''git'' [''checkout'', rv] w3 = (r2, w4)"
    and "runCommand sys t ''go'' [''mod'', ''vendor''] w4 = (r3, w5)"
    and "runCommand sys t ''lsif-go'' [''-o'', p] w5 = (r4, w6)"
  shows "(stat_fault sys w p = None \<and> p \<in> fs w \<longrightarrow> index sys ownr nm rv w = (None, w))
   \<and> (stat_fault sys w p = None \<and> p \<notin> fs w \<and> temp_name sys ''.'' w = Inl m
        \<longrightarrow> index sys ownr nm rv w = (Some (EOS ''mkdir'' m), w))
   \<and> (stat_fault sys w p = None \<and> p \<notin> fs w \<and> temp_name sys ''.'' w = Inr d
        \<longrightarrow> index sys ownr nm rv w =
              (if r1 \<noteq> None then (r1, os_RemoveAll d w3)
               else if r2 \<noteq> None then (r2, os_RemoveAll d w4)
               else if r3 \<noteq> None then (r3, os_RemoveAll d w5)
               else (r4, os_RemoveAll d w6))
          \<and> trace (snd (index sys ownr nm rv w)) =
              trace w @ [TempDir d]
                @ take (if r1 \<noteq> None then 1 else if r2 \<noteq> None then 2 else if r3 \<noteq> None then 3 else 4)
                    [Exec [] ''cp'' [''-r'', filepath_Join ''repos'' nm, d],
                     Exec t ''git'' [''checkout'', rv],
                     Exec t ''go'' [''mod'', ''vendor''],
                     Exec t ''lsif-go'' [''-o'', p]]
                @ [RemoveAll d])"
proof -
  have skip: "index sys ownr nm rv w = (None, w)" if "stat_fault sys w p = None \<and> p \<in> fs w"
    using that assms(1) by (simp add: index_def os_Stat_def)
  have full: "index sys ownr nm rv w = (Some (EOS ''mkdir'' m), w)"
    if "stat_fault sys w p = None \<and> p \<notin> fs w \<and> temp_name sys ''.'' w = Inl m"
    using that assms(1) by (simp add: index_def os_Stat_def ioutil_TempDir_def)
  have made: "index sys ownr nm rv w =
              (if r1 \<noteq> None then (r1, os_RemoveAll d w3)
               else if r2 \<noteq> None then (r2, os_RemoveAll d w4)
               else if r3 \<noteq> None then (r3, os_RemoveAll d w5)
               else (r4, os_RemoveAll d w6))"
    if a: "stat_fault sys w p = None \<and> p \<notin> fs w \<and> temp_name sys ''.'' w = Inr d"
  proof -
    have run: "run_commands sys (index_commands d nm rv p) w2 =
        (if r1 \<noteq> None then (r1, w3) else if r2 \<noteq> None then (r2, w4)
         else if r3 \<noteq> None then (r3, w5) else (r4, w6))"
      using assms(4-7) by (auto simp: index_commands_def Let_def assms(2) [symmetric] split: option.splits)
    have "index sys ownr nm rv w =
        (case run_commands sys (index_commands d nm rv p) w2 of (r, w') \<Rightarrow> (r, os_RemoveAll d w'))"
      using a assms(1) unfolding assms(3) by (simp add: index_def os_Stat_def ioutil_TempDir_def Let_def)
    then show ?thesis unfolding run by simp
  qed
  have ran: "trace (snd (index sys ownr nm rv w)) =
              trace w @ [TempDir d]
                @ take (if r1 \<noteq> None then 1 else if r2 \<noteq> None then 2 else if r3 \<noteq> None then 3 else 4)
                    [Exec [] ''cp'' [''-r'', filepath_Join ''repos'' nm, d],
                     Exec t ''git'' [''checkout'', rv],
                     Exec t ''go'' [''mod'', ''vendor''],
                     Exec t ''lsif-go'' [''-o'', p]]
                @ [RemoveAll d]"
    if a: "stat_fault sys w p = None \<and> p \<notin> fs w \<and> temp_name sys ''.'' w = Inr d"
  proof -
    have t2: "trace w2 = trace w @ [TempDir d]" by (simp add: assms(3) printf_def)
    note t3 = runCommand_trace [OF assms(4)]
    note t4 = runCommand_trace [OF assms(5)]
    note t5 = runCommand_trace [OF assms(6)]
    note t6 = runCommand_trace [OF assms(7)]
    show ?thesis unfolding made [OF a]
      by (simp add: os_RemoveAll_def t2 t3 t4 t5 t6)
  qed
  show ?thesis
    by (intro conjI impI) (rule skip full made ran, assumption)+
qed

theorem index_skips_or_runs_witness:
  "filepath_Abs (os_sim ''go'' []) (index_file ''zap'' ''a6015e1'') = Inr ''/work/indexes/zap.a6015e1.dump''
   \<and> ''tmp0/zap'' = filepath_Join ''tmp0'' ''zap''
   \<and> stat_fault (os_sim ''go'' []) w0 ''/work/indexes/zap.a6015e1.dump'' = None
   \<and> ''/work/indexes/zap.a6015e1.dump'' \<notin> fs w0
   \<and> temp_name (os_sim ''go'' []) ''.'' w0 = Inr ''tmp0''
   \<and> fst (index (os_sim ''go'' []) ''uber-go'' ''zap'' ''a6015e1'' w0) =
       Some (Wrapped (ExitError ''exit status 1'')
         (''error running '' @ [CHR 0x27] @ ''go mod vendor'' @ [CHR 0x27] @ '':'' @ [CHR 0x0A]
            @ ''boom'' @ [CHR 0x0A]))
   \<and> trace (snd (index (os_sim ''go'' []) ''uber-go'' ''zap'' ''a6015e1'' w0)) =
       [TempDir ''tmp0'',
        Exec [] ''cp'' [''-r'', ''repos/zap'', ''tmp0''],
        Exec ''tmp0/zap'' ''git'' [''checkout'', ''a6015e1''],
        Exec ''tmp0/zap'' ''go'' [''mod'', ''vendor''],
        RemoveAll ''tmp0'']
   \<and> ''/work/indexes/zap.a6015e1.dump'' \<in> fs (w0\<lparr>fs := {''/work/indexes/zap.a6015e1.dump''}\<rparr>)
   \<and> index (os_sim ''go'' []) ''uber-go'' ''zap'' ''a6015e1'' (w0\<lparr>fs := {''/work/indexes/zap.a6015e1.dump''}\<rparr>)
        = (None, w0\<lparr>fs := {''/work/indexes/zap.a6015e1.dump''}\<rparr>)
   \<and> temp_name ((os_sim ''go'' [])\<lparr>temp_name := (\<lambda>dir w. Inl ''no space left on device'')\<rparr>) ''.'' w0
        = Inl ''no space left on device''
   \<and> index ((os_sim ''go'' [])\<lparr>temp_name := (\<lambda>dir w. Inl ''no space left on device'')\<rparr>)
        ''uber-go'' ''zap'' ''a6015e1'' w0 = (Some (EOS ''mkdir'' ''no space left on device''), w0)"
proof -
  define p where "p = ''/work/indexes/zap.a6015e1.dump''"
  define sys where "sys = os_sim ''go'' []"
  define sys' where "sys' = sys\<lparr>temp_name := (\<lambda>dir w. Inl ''no space left on device'')\<rparr>"
  define w1 where "w1 = w0\<lparr>fs := {p}\<rparr>"
  define w2 where "w2 = (\<lambda>w. printf (''Indexing '' @ ''uber-go'' @ ''/'' @ ''zap'' @ '' at '' @ ''a6015e1'' @ [CHR 0x0A])
                (w\<lparr>fs := insert ''tmp0'' (fs w), trace := trace w @ [TempDir ''tmp0'']\<rparr>))"
  define c1 where "c1 = (\<lambda>s w. runCommand s [] ''cp'' [''-r'', filepath_Join ''repos'' ''zap'', ''tmp0''] (w2 w))"
  define c2 where "c2 = (\<lambda>s w. runCommand s ''tmp0/zap'' ''git'' [''checkout'', ''a6015e1''] (snd (c1 s w)))"
  define c3 where "c3 = (\<lambda>s w. runCommand s ''tmp0/zap'' ''go'' [''mod'', ''vendor''] (snd (c2 s w)))"
  define c4 where "c4 = (\<lambda>s w. runCommand s ''tmp0/zap'' ''lsif-go'' [''-o'', p] (snd (c3 s w)))"
  note defs = p_def sys_def sys'_def w1_def w2_def c1_def c2_def c3_def c4_def
  have habs: "filepath_Abs sys (index_file ''zap'' ''a6015e1'') = Inr p"
    and habs': "filepath_Abs sys' (index_file ''zap'' ''a6015e1'') = Inr p"
    and ht: "''tmp0/zap'' = filepath_Join ''tmp0'' ''zap''"
    and jn: "filepath_Join ''repos'' ''zap'' = ''repos/zap''"
    unfolding defs by code_simp+
  have a0: "stat_fault sys w0 p = None \<and> p \<notin> fs w0 \<and> temp_name sys ''.'' w0 = Inr ''tmp0''"
    and a1: "stat_fault sys w1 p = None \<and> p \<in> fs w1"
    and a2: "stat_fault sys' w0 p = None \<and> p \<notin> fs w0 \<and> temp_name sys' ''.'' w0 = Inl ''no space left on device''"
    unfolding defs by code_simp+
  have f1: "fst (c1 sys w0) = None" and f2: "fst (c2 sys w0) = None"
    and f3: "fst (c3 sys w0) = Some (Wrapped (ExitError ''exit status 1'')
         (''error running '' @ [CHR 0x27] @ ''go mod vendor'' @ [CHR 0x27] @ '':'' @ [CHR 0x0A]
            @ ''boom'' @ [CHR 0x0A]))"
    unfolding defs by code_simp+
  have tw: "trace w0 = []" unfolding w0_def by simp
  have k1: "runCommand s [] ''cp'' [''-r'', filepath_Join ''repos'' ''zap'', ''tmp0''] (w2 w) = (fst (c1 s w), snd (c1 s w))"
    and k2: "runCommand s ''tmp0/zap'' ''git'' [''checkout'', ''a6015e1''] (snd (c1 s w)) = (fst (c2 s w), snd (c2 s w))"
    and k3: "runCommand s ''tmp0/zap'' ''go'' [''mod'', ''vendor''] (snd (c2 s w)) = (fst (c3 s w), snd (c3 s w))"
    and k4: "runCommand s ''tmp0/zap'' ''lsif-go'' [''-o'', p] (snd (c3 s w)) = (fst (c4 s w), snd (c4 s w))"
    for s w
    by (simp_all add: c1_def c2_def c3_def c4_def)
  have hw: "w2 w = printf (''Indexing '' @ ''uber-go'' @ ''/'' @ ''zap'' @ '' at '' @ ''a6015e1'' @ [CHR 0x0A])
                (w\<lparr>fs := insert ''tmp0'' (fs w), trace := trace w @ [TempDir ''tmp0'']\<rparr>)" for w
    by (simp add: w2_def)
  note t0 = index_skips_or_runs [where m = "[]", OF habs ht hw k1 k2 k3 k4, of w0]
  note t1 = index_skips_or_runs [where m = "[]", OF habs ht hw k1 k2 k3 k4, of w1]
  note t2 = index_skips_or_runs [where m = "''no space left on device''", OF habs' ht hw k1 k2 k3 k4, of w0]
  note r0 = t0 [THEN conjunct2, THEN conjunct2, THEN mp, OF a0]
  note r1 = t1 [THEN conjunct1, THEN mp, OF a1]
  note r2 = t2 [THEN conjunct2, THEN conjunct1, THEN mp, OF a2]
  have v1: "fst (index sys ''uber-go'' ''zap'' ''a6015e1'' w0) = fst (c3 sys w0)"
    unfolding r0 [THEN conjunct1] using f1 f2 f3 by simp
  have v2: "trace (snd (index sys ''uber-go'' ''zap'' ''a6015e1'' w0)) =
       [TempDir ''tmp0'',
        Exec [] ''cp'' [''-r'', ''repos/zap'', ''tmp0''],
        Exec ''tmp0/zap'' ''git'' [''checkout'', ''a6015e1''],
        Exec ''tmp0/zap'' ''go'' [''mod'', ''vendor''],
        RemoveAll ''tmp0'']"
    unfolding r0 [THEN conjunct2] jn tw using f1 f2 f3 by simp
  show ?thesis
    using habs ht a0 a1 a2 v1 [unfolded f3] v2 r1 r2 unfolding defs
    by (intro conjI) simp_all
qed

text \<open>
  C6.  Whenever the index task has made a workspace \<open>d\<close>, that is, the task has added
  the creation of \<open>d\<close> to the trace, then when the task returns, whatever it returns, no
  path at or below \<open>d\<close> exists and removing \<open>d\<close> was the last thing the task did.  The
  exits after the workspace is made are the normal one and the failures of the copy, the
  checkout, the vendoring and the indexer.
\<close>

theorem index_workspace_removed:
  assumes "index sys ownr nm rv w = (r, w')"
    and "TempDir d \<in> set (drop (length (trace w)) (trace w'))"
  shows "(\<forall>x\<in>fs w'. \<not> lies_under d x) \<and> d \<notin> fs w' \<and> last (trace w') = RemoveAll d"
proof -
  have "drop (length (trace w)) (trace w) = []" by simp
  with assms(2) have "w' \<noteq> w" by force
  with index_exit [OF assms(1)] obtain d' p k where
    t: "trace w' = trace w @ [TempDir d'] @ map exec_event (take k (index_commands d' nm rv p)) @ [RemoveAll d']"
    and gone: "\<forall>x\<in>fs w'. \<not> lies_under d' x" by blast
  define cs where "cs = take k (index_commands d' nm rv p)"
  have no_temp: "TempDir d \<notin> set (map exec_event cs)"
    by (induction cs) auto
  have "drop (length (trace w)) (trace w') = TempDir d' # map exec_event cs @ [RemoveAll d']"
    using t by (simp add: cs_def)
  with assms(2) no_temp have "d' = d" by simp
  have "lies_under d d" by (simp add: lies_under_def)
  with gone \<open>d' = d\<close> have "d \<notin> fs w'" by blast
  moreover have "last (trace w') = RemoveAll d" using t \<open>d' = d\<close> by simp
  ultimately show ?thesis using gone \<open>d' = d\<close> by simp
qed

theorem index_workspace_removed_witness:
  "TempDir ''tmp0'' \<in> set (drop (length (trace w0))
       (trace (snd (index (os_sim ''lsif-go'' []) ''uber-go'' ''zap'' ''a6015e1'' w0))))
   \<and> fst (index (os_sim ''lsif-go'' []) ''uber-go'' ''zap'' ''a6015e1'' w0) \<noteq> None
   \<and> ''tmp0'' \<notin> fs (snd (index (os_sim ''lsif-go'' []) ''uber-go'' ''zap'' ''a6015e1'' w0))
   \<and> ''tmp0/go.mod'' \<notin> fs (snd (index (os_sim ''lsif-go'' []) ''uber-go'' ''zap'' ''a6015e1'' w0))
   \<and> last (trace (snd (index (os_sim ''lsif-go'' []) ''uber-go'' ''zap'' ''a6015e1'' w0))) = RemoveAll ''tmp0''"
proof -
  define res where "res = index (os_sim ''lsif-go'' []) ''uber-go'' ''zap'' ''a6015e1'' w0"
  have run: "TempDir ''tmp0'' \<in> set (drop (length (trace w0)) (trace (snd res)))"
    and failed: "fst res \<noteq> None"
    unfolding res_def by code_simp+
  have below: "lies_under ''tmp0'' ''tmp0/go.mod''" by (simp add: lies_under_def)
  have "index (os_sim ''lsif-go'' []) ''uber-go'' ''zap'' ''a6015e1'' w0 = (fst res, snd res)"
    by (simp add: res_def)
  from index_workspace_removed [OF this run]
  have gone: "\<forall>x\<in>fs (snd res). \<not> lies_under ''tmp0'' x"
    and rest: "''tmp0'' \<notin> fs (snd res)" "last (trace (snd res)) = RemoveAll ''tmp0''"
    by simp_all
  from gone below have "''tmp0/go.mod'' \<notin> fs (snd res)" by blast
  with run failed rest show ?thesis unfolding res_def by simp
qed


section \<open>Properties of the client\<close>

subsection \<open>The status of the response\<close>

lemma ctrace_emit [simp]: "ctrace (emit es w) = ctrace w @ es"
  by (simp add: emit_def)

lemma cfiles_emit [simp]: "cfiles (emit es w) = cfiles w"
  by (simp add: emit_def)

lemma ctrace_finish_span:
  "ctrace (finish_span err w) =
     ctrace w @ (case err of None \<Rightarrow> [SpanFinish]
                 | Some e \<Rightarrow> [SpanError, SpanTag ''err'' (Error_msg e), SpanFinish])"
  by (simp add: finish_span_def split: option.splits)

lemma cfiles_finish_span [simp]: "cfiles (finish_span err w) = cfiles w"
  by (simp add: finish_span_def split: option.splits)

lemma ctrace_start_span:
  "ctrace (start_span nm tags w) = ctrace w @ SpanStart nm # map (\<lambda>(k, v). SpanTag k v) tags"
  by (simp add: start_span_def)

lemma do_response:
  assumes "NewRequest_fault nt method (URL_String u) = None"
    and "\<forall>req w. Do nt req w = Inr resp"
  shows "do nt c ctx method u payload w =
     (if StatusCode resp \<noteq> http_StatusOK
      then (Inl (Errorf (''unexpected status code '' @ itoa (StatusCode resp))),
            emit (do_before c (do_request c ctx method u payload) @ [BodyClose] @ do_after c) w)
      else (Inr (Body resp), emit (do_before c (do_request c ctx method u payload) @ do_after c) w))"
  using assms
  by (simp add: do_def Let_def do_before_def do_after_def do_request_def emit_def split: option.splits)

lemma no_close_around: "BodyClose \<notin> set (do_before c req)" "BodyClose \<notin> set (do_after c)"
  by (simp_all add: do_before_def do_after_def split: option.splits)

lemma filter_none: "x \<notin> set xs \<Longrightarrow> filter (\<lambda>e. e = x) xs = []"
  by (induction xs) auto

lemma closes_emit:
  "closes_since w (emit es w) = length (filter (\<lambda>e. e = BodyClose) es)"
  by (simp add: closes_since_def)


lemma closes_since_append:
  "ctrace w' = ctrace w @ es \<Longrightarrow> closes_since w w' = length (filter (\<lambda>e. e = BodyClose) es)"
  by (simp add: closes_since_def)

lemma makeURL_plain:
  "url_Parse nt (b @ ''/'' @ path) = Inr u0 \<Longrightarrow>
     makeURL (url_Parse nt) b path [] = Inr (u0\<lparr>RawQuery := []\<rparr>)"
  by (simp add: makeURL_def Values_Encode_def)

lemma makeURL_parsed:
  "url_Parse nt (b @ ''/'' @ path) = Inr u0 \<Longrightarrow> \<exists>u. makeURL (url_Parse nt) b path qs = Inr u"
  by (simp add: makeURL_def)


text \<open>
  C7.  For every operation of the client: when the bundle manager answers with a status
  other than 200 OK, the operation returns the error made from \<open>unexpected status code\<close>
  and the status in decimal, and between the call and its return the response body is
  closed, once.
\<close>

theorem status_not_ok_is_error:
  assumes "\<forall>req w. Do nt req w = Inr resp" and "StatusCode resp \<noteq> http_StatusOK"
    and "\<forall>method u. NewRequest_fault nt method u = None"
    and "url_Parse nt (url c @ ''/'' @ ''uploads/'' @ itoa bundleID) = Inr u1"
    and "url_Parse nt (url c @ ''/'' @ ''dbs/'' @ itoa bundleID) = Inr u2"
    and "url_Parse nt (url c @ ''/'' @ ''dbs/'' @ itoa bundleID @ ''/'' @ op) = Inr u3"
  shows "fst (SendUpload nt c ctx bundleID r w) =
           Some (Errorf (''unexpected status code '' @ itoa (StatusCode resp)))
       \<and> closes_since w (snd (SendUpload nt c ctx bundleID r w)) = 1
       \<and> fst (GetUpload nt c ctx bundleID dir w) =
           ([], Some (Errorf (''unexpected status code '' @ itoa (StatusCode resp))))
       \<and> closes_since w (snd (GetUpload nt c ctx bundleID dir w)) = 1
       \<and> fst (SendDB nt c ctx bundleID r w) =
           Some (Errorf (''unexpected status code '' @ itoa (StatusCode resp)))
       \<and> closes_since w (snd (SendDB nt c ctx bundleID r w)) = 1
       \<and> fst (queryBundle nt c ctx bundleID op qs tgt w) =
           Some (Errorf (''unexpected status code '' @ itoa (StatusCode resp)))
       \<and> closes_since w (snd (queryBundle nt c ctx bundleID op qs tgt w)) = 1"
proof -
  note mk1 = makeURL_plain [OF assms(4), simplified]
  note mk2 = makeURL_plain [OF assms(5), simplified]
  from assms(6) obtain u where "makeBundleURL (url_Parse nt) (url c) bundleID op qs = Inr u"
    by (auto simp: makeBundleURL_def makeURL_def)
  note mk3 = this
  have d: "do nt c ctx' meth u payload w' =
      (Inl (Errorf (''unexpected status code '' @ itoa (StatusCode resp))),
       emit (do_before c (do_request c ctx' meth u payload) @ [BodyClose] @ do_after c) w')"
    for ctx' meth u payload w'
    using do_response [of nt meth u resp c ctx' payload w'] assms(1-3) by simp
  note tr = closes_since_def ctrace_finish_span ctrace_start_span filter_none no_close_around
  have "fst (SendUpload nt c ctx bundleID r w) =
      Some (Errorf (''unexpected status code '' @ itoa (StatusCode resp)))"
    by (simp add: SendUpload_def Let_def mk1 d)
  moreover have "closes_since w (snd (SendUpload nt c ctx bundleID r w)) = 1"
    by (simp add: SendUpload_def Let_def mk1 d tr)
  moreover have "fst (GetUpload nt c ctx bundleID dir w) =
      ([], Some (Errorf (''unexpected status code '' @ itoa (StatusCode resp))))"
    by (simp add: GetUpload_def Let_def mk1 d)
  moreover have "closes_since w (snd (GetUpload nt c ctx bundleID dir w)) = 1"
    by (simp add: GetUpload_def Let_def mk1 d tr)
  moreover have "fst (SendDB nt c ctx bundleID r w) =
      Some (Errorf (''unexpected status code '' @ itoa (StatusCode resp)))"
    by (simp add: SendDB_def Let_def mk2 d)
  moreover have "closes_since w (snd (SendDB nt c ctx bundleID r w)) = 1"
    by (simp add: SendDB_def Let_def mk2 d tr)
  moreover have "fst (queryBundle nt c ctx bundleID op qs tgt w) =
      Some (Errorf (''unexpected status code '' @ itoa (StatusCode resp)))"
    by (simp add: queryBundle_def Let_def mk3 d)
  moreover have "closes_since w (snd (queryBundle nt c ctx bundleID op qs tgt w)) = 1"
    by (simp add: queryBundle_def Let_def mk3 d tr)
  ultimately show ?thesis by (intro conjI)
qed

theorem status_not_ok_is_error_witness:
  "(\<forall>req w. Do (net_sim 503 dump) req w = Inr \<lparr>StatusCode = 503, Body = dump\<rparr>)
   \<and> StatusCode \<lparr>StatusCode = 503, Body = dump\<rparr> \<noteq> http_StatusOK
   \<and> (\<forall>method u. NewRequest_fault (net_sim 503 dump) method u = None)
   \<and> url_Parse (net_sim 503 dump) (url client0 @ ''/'' @ ''uploads/'' @ itoa 7)
        = Inr \<lparr>Front = ''http://bm:3187/uploads/7'', ForceQuery = False, RawQuery = [], Fragment = []\<rparr>
   \<and> url_Parse (net_sim 503 dump) (url client0 @ ''/'' @ ''dbs/'' @ itoa 7)
        = Inr \<lparr>Front = ''http://bm:3187/dbs/7'', ForceQuery = False, RawQuery = [], Fragment = []\<rparr>
   \<and> url_Parse (net_sim 503 dump) (url client0 @ ''/'' @ ''dbs/'' @ itoa 7 @ ''/'' @ ''hover'')
        = Inr \<lparr>Front = ''http://bm:3187/dbs/7/hover'', ForceQuery = False, RawQuery = [], Fragment = []\<rparr>
   \<and> fst (SendUpload (net_sim 503 dump) client0 [] 7 ''lsif'' cw0) = Some (Errorf ''unexpected status code 503'')
   \<and> closes_since cw0 (snd (SendUpload (net_sim 503 dump) client0 [] 7 ''lsif'' cw0)) = 1
   \<and> fst (GetUpload (net_sim 503 dump) client0 [] 7 ''/tmp'' cw0) = ([], Some (Errorf ''unexpected status code 503''))
   \<and> closes_since cw0 (snd (GetUpload (net_sim 503 dump) client0 [] 7 ''/tmp'' cw0)) = 1
   \<and> fst (SendDB (net_sim 503 dump) client0 [] 7 ''lsif'' cw0) = Some (Errorf ''unexpected status code 503'')
   \<and> closes_since cw0 (snd (SendDB (net_sim 503 dump) client0 [] 7 ''lsif'' cw0)) = 1
   \<and> fst (queryBundle (net_sim 503 dump) client0 [] 7 ''hover'' [(''line'', GInt 3)] (Dest 0) cw0)
        = Some (Errorf ''unexpected status code 503'')
   \<and> closes_since cw0 (snd (queryBundle (net_sim 503 dump) client0 [] 7 ''hover'' [(''line'', GInt 3)] (Dest 0) cw0)) = 1"
proof -
  have h1: "\<forall>req w. Do (net_sim 503 dump) req w = Inr \<lparr>StatusCode = 503, Body = dump\<rparr>"
    by (simp add: net_sim_def)
  have h2: "StatusCode \<lparr>StatusCode = 503, Body = dump\<rparr> \<noteq> http_StatusOK"
    by (simp add: http_StatusOK_def)
  have h3: "\<forall>method u. NewRequest_fault (net_sim 503 dump) method u = None"
    by (simp add: net_sim_def)
  have i7: "itoa 7 = ''7''" and i503: "itoa 503 = ''503''" by code_simp+
  have p1: "url_Parse (net_sim 503 dump) (url client0 @ ''/'' @ ''uploads/'' @ itoa 7)
        = Inr \<lparr>Front = ''http://bm:3187/uploads/7'', ForceQuery = False, RawQuery = [], Fragment = []\<rparr>"
    and p2: "url_Parse (net_sim 503 dump) (url client0 @ ''/'' @ ''dbs/'' @ itoa 7)
        = Inr \<lparr>Front = ''http://bm:3187/dbs/7'', ForceQuery = False, RawQuery = [], Fragment = []\<rparr>"
    and p3: "url_Parse (net_sim 503 dump) (url client0 @ ''/'' @ ''dbs/'' @ itoa 7 @ ''/'' @ ''hover'')
        = Inr \<lparr>Front = ''http://bm:3187/dbs/7/hover'', ForceQuery = False, RawQuery = [], Fragment = []\<rparr>"
    by (simp_all add: net_sim_def parse_plain_def client0_def i7)
  note t = status_not_ok_is_error [OF h1 h2 h3 p1 p2 p3, of "[]" "''lsif''" cw0 "''/tmp''"
      "[(''line'', GInt 3)]" "Dest 0"]
  show ?thesis using h1 h2 h3 p1 p2 p3 t by (simp add: i503)
qed


text \<open>
  C1, as the claim states it, fails: 204 No Content is a status of the class 2xx, and on
  it every operation returns the error of an unexpected status.
\<close>

theorem status_2xx_counterexample:
  "fst (SendUpload (net_sim 204 dump) client0 [] 7 ''lsif'' cw0) = Some (Errorf ''unexpected status code 204'')
   \<and> fst (GetUpload (net_sim 204 dump) client0 [] 7 ''/tmp'' cw0) = ([], Some (Errorf ''unexpected status code 204''))
   \<and> fst (SendDB (net_sim 204 dump) client0 [] 7 ''lsif'' cw0) = Some (Errorf ''unexpected status code 204'')
   \<and> fst (queryBundle (net_sim 204 dump) client0 [] 7 ''hover'' [(''line'', GInt 3)] (Dest 0) cw0)
        = Some (Errorf ''unexpected status code 204'')"
  by code_simp

text \<open>
  C1, amended.  For every operation of the client whose request is made and answered
  (the URL parses, the request is built, the round trip returns a response).  When the
  status of the response is 200 OK, the one status \<^verbatim>\<open>do\<close> accepts, the operation treats
  the response as a success: \<^verbatim>\<open>SendUpload\<close> and \<^verbatim>\<open>SendDB\<close> close the body, once, and
  return nil; \<^verbatim>\<open>queryBundle\<close> returns what decoding the body returns, nil or the error of
  the decoder; \<^verbatim>\<open>GetUpload\<close> returns what making the randomly named file, copying the
  body into it and closing it return: the error of making the file and no path, else
  the error of the copy and no path, else the path of the file and the error of closing
  it, if any.  When the status is any other, the other statuses of the class 2xx
  included, every operation returns the error made from \<open>unexpected status code\<close> and
  the status in decimal, \<^verbatim>\<open>GetUpload\<close> with no path.
\<close>

theorem status_ok_is_success:
  assumes "\<forall>req w. Do nt req w = Inr resp"
    and "\<forall>meth u. NewRequest_fault nt meth u = None"
    and "url_Parse nt (url c @ ''/'' @ ''uploads/'' @ itoa bundleID) = Inr u1"
    and "url_Parse nt (url c @ ''/'' @ ''dbs/'' @ itoa bundleID) = Inr u2"
    and "url_Parse nt (url c @ ''/'' @ ''dbs/'' @ itoa bundleID @ ''/'' @ op) = Inr u3"
  shows "(StatusCode resp = http_StatusOK \<longrightarrow>
            fst (SendUpload nt c ctx bundleID r w) = None
          \<and> closes_since w (snd (SendUpload nt c ctx bundleID r w)) = 1
          \<and> fst (SendDB nt c ctx bundleID r w) = None
          \<and> closes_since w (snd (SendDB nt c ctx bundleID r w)) = 1
          \<and> fst (queryBundle nt c ctx bundleID op qs tgt w) =
               (case Decode nt (Body resp) of Inl m \<Rightarrow> Some (EOS ''json'' m) | Inr doc \<Rightarrow> None)
          \<and> fst (GetUpload nt c ctx bundleID dir w) =
               (case openRandomFile nt dir
                       (emit (do_before c (do_request c (''client.GetUpload'' # ctx) ''GET''
                                             (u1\<lparr>RawQuery := []\<rparr>) None) @ do_after c)
                          (start_span ''client.GetUpload'' [(''bundleID'', itoa bundleID)] w)) of
                  (Inl e, w') \<Rightarrow> ([], Some e)
                | (Inr f, w') \<Rightarrow>
                    (case io_Copy nt f (Body resp) w' of
                       (Some e, w'') \<Rightarrow> ([], Some e)
                     | (None, w'') \<Rightarrow> (f, fst (file_Close nt f w'')))))
       \<and> (StatusCode resp \<noteq> http_StatusOK \<longrightarrow>
            fst (SendUpload nt c ctx bundleID r w) =
              Some (Errorf (''unexpected status code '' @ itoa (StatusCode resp)))
          \<and> fst (SendDB nt c ctx bundleID r w) =
              Some (Errorf (''unexpected status code '' @ itoa (StatusCode resp)))
          \<and> fst (queryBundle nt c ctx bundleID op qs tgt w) =
              Some (Errorf (''unexpected status code '' @ itoa (StatusCode resp)))
          \<and> fst (GetUpload nt c ctx bundleID dir w) =
              ([], Some (Errorf (''unexpected status code '' @ itoa (StatusCode resp)))))"
proof -
  note mk1 = makeURL_plain [OF assms(3), simplified]
  note mk2 = makeURL_plain [OF assms(4), simplified]
  from assms(5) obtain u where "makeBundleURL (url_Parse nt) (url c) bundleID op qs = Inr u"
    by (auto simp: makeBundleURL_def makeURL_def)
  note mk3 = this
  note tr = closes_since_def ctrace_finish_span ctrace_start_span filter_none no_close_around
  have ok: "fst (SendUpload nt c ctx bundleID r w) = None
          \<and> closes_since w (snd (SendUpload nt c ctx bundleID r w)) = 1
          \<and> fst (SendDB nt c ctx bundleID r w) = None
          \<and> closes_since w (snd (SendDB nt c ctx bundleID r w)) = 1
          \<and> fst (queryBundle nt c ctx bundleID op qs tgt w) =
               (case Decode nt (Body resp) of Inl m \<Rightarrow> Some (EOS ''json'' m) | Inr doc \<Rightarrow> None)
          \<and> fst (GetUpload nt c ctx bundleID dir w) =
               (case openRandomFile nt dir
                       (emit (do_before c (do_request c (''client.GetUpload'' # ctx) ''GET''
                                             (u1\<lparr>RawQuery := []\<rparr>) None) @ do_after c)
                          (start_span ''client.GetUpload'' [(''bundleID'', itoa bundleID)] w)) of
                  (Inl e, w') \<Rightarrow> ([], Some e)
                | (Inr f, w') \<Rightarrow>
                    (case io_Copy nt f (Body resp) w' of
                       (Some e, w'') \<Rightarrow> ([], Some e)
                     | (None, w'') \<Rightarrow> (f, fst (file_Close nt f w''))))"
    if s: "StatusCode resp = http_StatusOK"
  proof -
    have d: "do nt c ctx' meth u payload w' =
        (Inr (Body resp), emit (do_before c (do_request c ctx' meth u payload) @ do_after c) w')"
      for ctx' meth u payload w'
      using do_response [of nt meth u resp c ctx' payload w'] assms(1,2) s by simp
    have "fst (SendUpload nt c ctx bundleID r w) = None"
      by (simp add: SendUpload_def Let_def mk1 d)
    moreover have "closes_since w (snd (SendUpload nt c ctx bundleID r w)) = 1"
      by (simp add: SendUpload_def Let_def mk1 d tr)
    moreover have "fst (SendDB nt c ctx bundleID r w) = None"
      by (simp add: SendDB_def Let_def mk2 d)
    moreover have "closes_since w (snd (SendDB nt c ctx bundleID r w)) = 1"
      by (simp add: SendDB_def Let_def mk2 d tr)
    moreover have "fst (queryBundle nt c ctx bundleID op qs tgt w) =
        (case Decode nt (Body resp) of Inl m \<Rightarrow> Some (EOS ''json'' m) | Inr doc \<Rightarrow> None)"
      by (simp add: queryBundle_def Let_def mk3 d json_Decode_def split: sum.splits)
    moreover have "fst (GetUpload nt c ctx bundleID dir w) =
               (case openRandomFile nt dir
                       (emit (do_before c (do_request c (''client.GetUpload'' # ctx) ''GET''
                                             (u1\<lparr>RawQuery := []\<rparr>) None) @ do_after c)
                          (start_span ''client.GetUpload'' [(''bundleID'', itoa bundleID)] w)) of
                  (Inl e, w') \<Rightarrow> ([], Some e)
                | (Inr f, w') \<Rightarrow>
                    (case io_Copy nt f (Body resp) w' of
                       (Some e, w'') \<Rightarrow> ([], Some e)
                     | (None, w'') \<Rightarrow> (f, fst (file_Close nt f w''))))"
      by (simp add: GetUpload_def Let_def mk1 d file_Close_def split: sum.splits option.splits prod.splits)
    ultimately show ?thesis by (intro conjI)
  qed
  have bad: "fst (SendUpload nt c ctx bundleID r w) =
              Some (Errorf (''unexpected status code '' @ itoa (StatusCode resp)))
          \<and> fst (SendDB nt c ctx bundleID r w) =
              Some (Errorf (''unexpected status code '' @ itoa (StatusCode resp)))
          \<and> fst (queryBundle nt c ctx bundleID op qs tgt w) =
              Some (Errorf (''unexpected status code '' @ itoa (StatusCode resp)))
          \<and> fst (GetUpload nt c ctx bundleID dir w) =
              ([], Some (Errorf (''unexpected status code '' @ itoa (StatusCode resp))))"
    if s: "StatusCode resp \<noteq> http_StatusOK"
  proof -
    have d: "do nt c ctx' meth u payload w' =
        (Inl (Errorf (''unexpected status code '' @ itoa (StatusCode resp))),
         emit (do_before c (do_request c ctx' meth u payload) @ [BodyClose] @ do_after c) w')"
      for ctx' meth u payload w'
      using do_response [of nt meth u resp c ctx' payload w'] assms(1,2) s by simp
    have "fst (SendUpload nt c ctx bundleID r w) =
        Some (Errorf (''unexpected status code '' @ itoa (StatusCode resp)))"
      by (simp add: SendUpload_def Let_def mk1 d)
    moreover have "fst (SendDB nt c ctx bundleID r w) =
        Some (Errorf (''unexpected status code '' @ itoa (StatusCode resp)))"
      by (simp add: SendDB_def Let_def mk2 d)
    moreover have "fst (queryBundle nt c ctx bundleID op qs tgt w) =
        Some (Errorf (''unexpected status code '' @ itoa (StatusCode resp)))"
      by (simp add: queryBundle_def Let_def mk3 d)
    moreover have "fst (GetUpload nt c ctx bundleID dir w) =
        ([], Some (Errorf (''unexpected status code '' @ itoa (StatusCode resp))))"
      by (simp add: GetUpload_def Let_def mk1 d)
    ultimately show ?thesis by (intro conjI)
  qed
  show ?thesis by (rule conjI; rule impI) (erule ok, erule bad)
qed

theorem status_ok_is_success_witness:
  "(\<forall>req w. Do (net_sim 200 dump) req w = Inr \<lparr>StatusCode = 200, Body = dump\<rparr>)
   \<and> StatusCode \<lparr>StatusCode = 200, Body = dump\<rparr> = http_StatusOK
   \<and> (\<forall>meth u. NewRequest_fault (net_sim 200 dump) meth u = None)
   \<and> url_Parse (net_sim 200 dump) (url client0 @ ''/'' @ ''uploads/'' @ itoa 7)
        = Inr \<lparr>Front = ''http://bm:3187/uploads/7'', ForceQuery = False, RawQuery = [], Fragment = []\<rparr>
   \<and> url_Parse (net_sim 200 dump) (url client0 @ ''/'' @ ''dbs/'' @ itoa 7)
        = Inr \<lparr>Front = ''http://bm:3187/dbs/7'', ForceQuery = False, RawQuery = [], Fragment = []\<rparr>
   \<and> url_Parse (net_sim 200 dump) (url client0 @ ''/'' @ ''dbs/'' @ itoa 7 @ ''/'' @ ''hover'')
        = Inr \<lparr>Front = ''http://bm:3187/dbs/7/hover'', ForceQuery = False, RawQuery = [], Fragment = []\<rparr>
   \<and> fst (SendUpload (net_sim 200 dump) client0 [] 7 ''lsif'' cw0) = None
   \<and> closes_since cw0 (snd (SendUpload (net_sim 200 dump) client0 [] 7 ''lsif'' cw0)) = 1
   \<and> fst (SendDB (net_sim 200 dump) client0 [] 7 ''lsif'' cw0) = None
   \<and> closes_since cw0 (snd (SendDB (net_sim 200 dump) client0 [] 7 ''lsif'' cw0)) = 1
   \<and> fst (queryBundle (net_sim 200 dump) client0 [] 7 ''hover'' [(''line'', GInt 3)] (Dest 0) cw0) = None
   \<and> fst (GetUpload (net_sim 200 dump) client0 [] 7 ''/tmp'' cw0) = (''/tmp/0b5c3a1e'', None)
   \<and> (\<forall>req w. Do (net_sim 201 dump) req w = Inr \<lparr>StatusCode = 201, Body = dump\<rparr>)
   \<and> StatusCode \<lparr>StatusCode = 201, Body = dump\<rparr> \<noteq> http_StatusOK
   \<and> fst (SendUpload (net_sim 201 dump) client0 [] 7 ''lsif'' cw0) = Some (Errorf ''unexpected status code 201'')
   \<and> fst (SendDB (net_sim 201 dump) client0 [] 7 ''lsif'' cw0) = Some (Errorf ''unexpected status code 201'')
   \<and> fst (queryBundle (net_sim 201 dump) client0 [] 7 ''hover'' [(''line'', GInt 3)] (Dest 0) cw0)
        = Some (Errorf ''unexpected status code 201'')
   \<and> fst (GetUpload (net_sim 201 dump) client0 [] 7 ''/tmp'' cw0)
        = ([], Some (Errorf ''unexpected status code 201''))"
proof -
  define ok where "ok = \<lparr>StatusCode = 200, Body = dump\<rparr>"
  define created where "created = \<lparr>StatusCode = 201, Body = dump\<rparr>"
  have h1: "\<forall>req w. Do (net_sim n dump) req w = Inr \<lparr>StatusCode = n, Body = dump\<rparr>"
    and h3: "\<forall>meth u. NewRequest_fault (net_sim n dump) meth u = None" for n
    by (simp_all add: net_sim_def)
  have s1: "StatusCode ok = http_StatusOK" and s2: "StatusCode created \<noteq> http_StatusOK"
    by (simp_all add: http_StatusOK_def ok_def created_def)
  have i7: "itoa 7 = ''7''" and i201: "itoa (StatusCode created) = ''201''"
    unfolding created_def by code_simp+
  have p1: "url_Parse (net_sim n dump) (url client0 @ ''/'' @ ''uploads/'' @ itoa 7)
        = Inr \<lparr>Front = ''http://bm:3187/uploads/7'', ForceQuery = False, RawQuery = [], Fragment = []\<rparr>"
    and p2: "url_Parse (net_sim n dump) (url client0 @ ''/'' @ ''dbs/'' @ itoa 7)
        = Inr \<lparr>Front = ''http://bm:3187/dbs/7'', ForceQuery = False, RawQuery = [], Fragment = []\<rparr>"
    and p3: "url_Parse (net_sim n dump) (url client0 @ ''/'' @ ''dbs/'' @ itoa 7 @ ''/'' @ ''hover'')
        = Inr \<lparr>Front = ''http://bm:3187/dbs/7/hover'', ForceQuery = False, RawQuery = [], Fragment = []\<rparr>"
    for n
    by (simp_all add: net_sim_def parse_plain_def client0_def i7)
  have dec: "Decode (net_sim 200 dump) (Body ok) = Inr (bytes dump)" by (simp add: net_sim_def ok_def)
  have g: "(case openRandomFile (net_sim 200 dump) ''/tmp''
                       (emit (do_before client0 (do_request client0 (''client.GetUpload'' # []) ''GET''
                                (\<lparr>Front = ''http://bm:3187/uploads/7'', ForceQuery = False, RawQuery = [],
                                   Fragment = []\<rparr>\<lparr>RawQuery := []\<rparr>) None) @ do_after client0)
                          (start_span ''client.GetUpload'' [(''bundleID'', itoa 7)] cw0)) of
                  (Inl e, w') \<Rightarrow> ([], Some e)
                | (Inr f, w') \<Rightarrow>
                    (case io_Copy (net_sim 200 dump) f (Body ok) w' of
                       (Some e, w'') \<Rightarrow> ([], Some e)
                     | (None, w'') \<Rightarrow> (f, fst (file_Close (net_sim 200 dump) f w''))))
           = (''/tmp/0b5c3a1e'', None)"
    unfolding ok_def by code_simp
  note t1 = status_ok_is_success [OF h1 [of 200, folded ok_def] h3 p1 p2 p3,
      of "[]" "''lsif''" cw0 "[(''line'', GInt 3)]" "Dest 0" "''/tmp''",
      THEN conjunct1, THEN mp, OF s1, unfolded g dec]
  note t2 = status_ok_is_success [OF h1 [of 201, folded created_def] h3 p1 p2 p3,
      of "[]" "''lsif''" cw0 "[(''line'', GInt 3)]" "Dest 0" "''/tmp''",
      THEN conjunct2, THEN mp, OF s2, unfolded i201]
  show ?thesis
    using h1 [of 200] h1 [of 201] s1 s2 h3 [of 200] p1 [of 200] p2 [of 200] p3 [of 200] t1 t2
    unfolding ok_def created_def by simp
qed

subsection \<open>A copy that fails\<close>

lemma io_Copy_file: "io_Copy nt f b w = (r, w') \<Longrightarrow> cfiles w' f \<noteq> None"
  by (auto simp: io_Copy_def split: option.splits prod.splits if_splits)

text \<open>
  C10.  When \<^verbatim>\<open>GetUpload\<close> has received the body and has made its randomly named file
  \<open>f\<close>, and copying the body into the file fails with \<open>e\<close>, then \<^verbatim>\<open>GetUpload\<close> returns
  the empty path with \<open>e\<close>, and the file \<open>f\<close> is still there when it returns, holding
  what the copy had written; \<open>f\<close> is the directory the caller gave joined with the
  random name.
\<close>

theorem GetUpload_copy_fails:
  assumes "url_Parse nt (url c @ ''/'' @ ''uploads/'' @ itoa bundleID) = Inr u1"
    and "do nt c (''client.GetUpload'' # ctx) ''GET'' (u1\<lparr>RawQuery := []\<rparr>) None
           (start_span ''client.GetUpload'' [(''bundleID'', itoa bundleID)] w) = (Inr b, w1)"
    and "openRandomFile nt dir w1 = (Inr f, w2)"
    and "io_Copy nt f b w2 = (Some e, w3)"
  shows "fst (GetUpload nt c ctx bundleID dir w) = ([], Some e)
       \<and> cfiles (snd (GetUpload nt c ctx bundleID dir w)) f = cfiles w3 f
       \<and> cfiles (snd (GetUpload nt c ctx bundleID dir w)) f \<noteq> None
       \<and> (\<exists>uuid. uuid_NewRandom nt w1 = Inr uuid \<and> f = filepath_Join dir uuid)"
proof -
  note mk = makeURL_plain [OF assms(1), simplified]
  note d = assms(2) [simplified]
  have "fst (GetUpload nt c ctx bundleID dir w) = ([], Some e)"
    by (simp add: GetUpload_def Let_def mk d assms(3,4) file_Close_def)
  moreover have "cfiles (snd (GetUpload nt c ctx bundleID dir w)) f = cfiles w3 f"
    by (simp add: GetUpload_def Let_def mk d assms(3,4) file_Close_def)
  moreover have "cfiles w3 f \<noteq> None"
    using io_Copy_file [OF assms(4)] .
  moreover have "\<exists>uuid. uuid_NewRandom nt w1 = Inr uuid \<and> f = filepath_Join dir uuid"
    using assms(3) by (auto simp: openRandomFile_def os_Create_def split: sum.splits option.splits)
  ultimately show ?thesis by simp
qed

theorem GetUpload_copy_fails_witness:
  "url_Parse (net_sim 200 broken) (url client0 @ ''/'' @ ''uploads/'' @ itoa 7)
     = Inr \<lparr>Front = ''http://bm:3187/uploads/7'', ForceQuery = False, RawQuery = [], Fragment = []\<rparr>
   \<and> fst (do (net_sim 200 broken) client0 [''client.GetUpload''] ''GET''
          \<lparr>Front = ''http://bm:3187/uploads/7'', ForceQuery = False, RawQuery = [], Fragment = []\<rparr> None
          (start_span ''client.GetUpload'' [(''bundleID'', itoa 7)] cw0)) = Inr broken
   \<and> fst (openRandomFile (net_sim 200 broken) ''/tmp''
          (snd (do (net_sim 200 broken) client0 [''client.GetUpload''] ''GET''
             \<lparr>Front = ''http://bm:3187/uploads/7'', ForceQuery = False, RawQuery = [], Fragment = []\<rparr> None
             (start_span ''client.GetUpload'' [(''bundleID'', itoa 7)] cw0)))) = Inr ''/tmp/0b5c3a1e''
   \<and> fst (io_Copy (net_sim 200 broken) ''/tmp/0b5c3a1e'' broken
          (snd (openRandomFile (net_sim 200 broken) ''/tmp''
             (snd (do (net_sim 200 broken) client0 [''client.GetUpload''] ''GET''
                \<lparr>Front = ''http://bm:3187/uploads/7'', ForceQuery = False, RawQuery = [], Fragment = []\<rparr> None
                (start_span ''client.GetUpload'' [(''bundleID'', itoa 7)] cw0))))))
        = Some (EOS ''read'' ''unexpected EOF'')
   \<and> fst (GetUpload (net_sim 200 broken) client0 [] 7 ''/tmp'' cw0) = ([], Some (EOS ''read'' ''unexpected EOF''))
   \<and> cfiles (snd (GetUpload (net_sim 200 broken) client0 [] 7 ''/tmp'' cw0)) ''/tmp/0b5c3a1e'' = Some ''lsif''"
proof -
  define u where "u = \<lparr>Front = ''http://bm:3187/uploads/7'', ForceQuery = False, RawQuery = [], Fragment = []\<rparr>"
  define D where "D = do (net_sim 200 broken) client0 [''client.GetUpload''] ''GET'' u None
          (start_span ''client.GetUpload'' [(''bundleID'', itoa 7)] cw0)"
  define F where "F = openRandomFile (net_sim 200 broken) ''/tmp'' (snd D)"
  define C where "C = io_Copy (net_sim 200 broken) ''/tmp/0b5c3a1e'' broken (snd F)"
  have i7: "itoa 7 = ''7''" by code_simp
  have p: "url_Parse (net_sim 200 broken) (url client0 @ ''/'' @ ''uploads/'' @ itoa 7) = Inr u"
    by (simp add: u_def net_sim_def parse_plain_def client0_def i7)
  have fD: "fst D = Inr broken" unfolding D_def u_def by code_simp
  have fF: "fst F = Inr ''/tmp/0b5c3a1e''" unfolding F_def D_def u_def by code_simp
  have fC: "fst C = Some (EOS ''read'' ''unexpected EOF'')" unfolding C_def F_def D_def u_def by code_simp
  have held: "cfiles (snd C) ''/tmp/0b5c3a1e'' = Some ''lsif''" unfolding C_def F_def D_def u_def by code_simp
  have u': "u\<lparr>RawQuery := []\<rparr> = u" by (simp add: u_def)
  have hD: "do (net_sim 200 broken) client0 (''client.GetUpload'' # []) ''GET'' (u\<lparr>RawQuery := []\<rparr>) None
          (start_span ''client.GetUpload'' [(''bundleID'', itoa 7)] cw0) = (Inr broken, snd D)"
    using fD by (simp add: u' D_def prod_eq_iff)
  have hF: "openRandomFile (net_sim 200 broken) ''/tmp'' (snd D) = (Inr ''/tmp/0b5c3a1e'', snd F)"
    using fF by (simp add: F_def prod_eq_iff)
  have hC: "io_Copy (net_sim 200 broken) ''/tmp/0b5c3a1e'' broken (snd F)
      = (Some (EOS ''read'' ''unexpected EOF''), snd C)"
    using fC by (simp add: C_def prod_eq_iff)
  note t = GetUpload_copy_fails [OF p hD hF hC]
  from t [THEN conjunct1] t [THEN conjunct2, THEN conjunct1] held
  have "fst (GetUpload (net_sim 200 broken) client0 [] 7 ''/tmp'' cw0) = ([], Some (EOS ''read'' ''unexpected EOF''))"
    and "cfiles (snd (GetUpload (net_sim 200 broken) client0 [] 7 ''/tmp'' cw0)) ''/tmp/0b5c3a1e'' = Some ''lsif''"
    by simp_all
  with p fD fF fC show ?thesis
    unfolding C_def F_def D_def u_def by (intro conjI)
qed

subsection \<open>The order in which a query map is visited\<close>

lemma map_fst_map_assign:
  "map fst (map_assign m k v) = (if k \<in> set (map fst m) then map fst m else map fst m @ [k])"
proof (induction m)
  case Nil
  then show ?case by simp
next
  case (Cons a m)
  obtain k' v' where a: "a = (k', v')" by (cases a)
  show ?case using Cons.IH by (simp add: a)
qed

lemma keys_map_assign: "fst ` set (map_assign m k v) = insert k (fst ` set m)"
proof -
  have "set (map fst (map_assign m k v)) = insert k (set (map fst m))"
    unfolding map_fst_map_assign by auto
  then show ?thesis by simp
qed

lemma distinct_map_assign: "distinct (map fst m) \<Longrightarrow> distinct (map fst (map_assign m k v))"
  unfolding map_fst_map_assign by simp

lemma map_index_map_assign: "map_index (map_assign m k v) k' = (if k' = k then v else map_index m k')"
  by (induction m) auto

lemma collect_Cons: "collect ((k, v) # qs) m = collect qs (map_assign m k [sprint_v v])"
  by (simp add: collect_def)

lemma keys_collect: "fst ` set (collect qs m) = fst ` set m \<union> fst ` set qs"
proof (induction qs arbitrary: m)
  case Nil
  then show ?case by (simp add: collect_def)
next
  case (Cons a qs)
  obtain k0 v0 where a: "a = (k0, v0)" by (cases a)
  have "fst ` set (collect (a # qs) m) = insert k0 (fst ` set m) \<union> fst ` set qs"
    unfolding a collect_Cons Cons.IH keys_map_assign ..
  then show ?case by (simp add: a)
qed

lemma distinct_collect: "distinct (map fst m) \<Longrightarrow> distinct (map fst (collect qs m))"
proof (induction qs arbitrary: m)
  case Nil
  then show ?case by (simp add: collect_def)
next
  case (Cons a qs)
  obtain k0 v0 where a: "a = (k0, v0)" by (cases a)
  from Cons.prems have "distinct (map fst (map_assign m k0 [sprint_v v0]))"
    by (rule distinct_map_assign)
  then show ?case unfolding a collect_Cons by (rule Cons.IH)
qed

lemma map_index_collect:
  "distinct (map fst qs) \<Longrightarrow>
     map_index (collect qs m) k =
       (case map_of qs k of Some v \<Rightarrow> [sprint_v v] | None \<Rightarrow> map_index m k)"
proof (induction qs arbitrary: m)
  case Nil
  then show ?case by (simp add: collect_def)
next
  case (Cons a qs)
  obtain k0 v0 where a: "a = (k0, v0)" by (cases a)
  from Cons.prems a have fresh: "map_of qs k0 = None" and d: "distinct (map fst qs)"
    by (auto simp: map_of_eq_None_iff)
  have step: "collect (a # qs) m = collect qs (map_assign m k0 [sprint_v v0])"
    by (simp add: collect_Cons a)
  show ?case
    unfolding step Cons.IH [OF d]
    using fresh by (auto simp: a map_index_map_assign split: option.splits)
qed

lemma Values_Encode_cong:
  assumes "distinct (map fst v)" and "distinct (map fst v')"
    and "fst ` set v = fst ` set v'" and "\<And>k. map_index v k = map_index v' k"
  shows "Values_Encode v = Values_Encode v'"
proof -
  have "sort (map fst v) = sort (map fst v')"
    by (rule sorted_distinct_set_unique) (simp_all add: assms(1-3))
  moreover have "map_index v = map_index v'" using assms(4) by (rule ext)
  ultimately show ?thesis by (simp add: Values_Encode_def)
qed

lemma makeURL_collect:
  "makeURL parse baseURL path qs =
     (case parse (baseURL @ ''/'' @ path) of
        Inl m \<Rightarrow> Inl (EOS ''parse'' m)
      | Inr u \<Rightarrow> Inr (u\<lparr>RawQuery := Values_Encode (collect qs [])\<rparr>))"
  unfolding makeURL_def collect_def Let_def by (rule refl)

lemma Values_Encode_collect:
  assumes "distinct (map fst qs)"
  shows "Values_Encode (collect qs []) =
     strings_Join (map (\<lambda>k. QueryEscape k @ ''='' @ QueryEscape (sprint_v (the (map_of qs k))))
                     (sort (map fst qs))) ''&''"
proof -
  have keys: "sort (map fst (collect qs [])) = sort (map fst qs)"
    by (rule sorted_distinct_set_unique) (simp_all add: distinct_collect assms keys_collect)
  have one: "map (\<lambda>x. QueryEscape k @ ''='' @ QueryEscape x) (map_index (collect qs []) k)
      = [QueryEscape k @ ''='' @ QueryEscape (sprint_v (the (map_of qs k)))]"
    if "k \<in> set (sort (map fst qs))" for k
  proof -
    from that have "k \<in> fst ` set qs" by simp
    then obtain v where "map_of qs k = Some v"
      by (metis domIff dom_map_of_conv_image_fst not_Some_eq)
    then show ?thesis by (simp add: map_index_collect [OF assms])
  qed
  have "concat (map (\<lambda>k. map (\<lambda>x. QueryEscape k @ ''='' @ QueryEscape x) (map_index (collect qs []) k))
                  (sort (map fst qs)))
      = concat (map (\<lambda>k. [QueryEscape k @ ''='' @ QueryEscape (sprint_v (the (map_of qs k)))])
                  (sort (map fst qs)))"
    using one by (intro arg_cong [where f = concat] map_cong refl)
  also have "\<dots> = map (\<lambda>k. QueryEscape k @ ''='' @ QueryEscape (sprint_v (the (map_of qs k))))
                  (sort (map fst qs))"
    by (induction "sort (map fst qs)") simp_all
  finally show ?thesis by (simp add: Values_Encode_def keys)
qed

text \<open>
  C9.  For every base URL, path and query map: whatever the order in which \<^verbatim>\<open>range\<close>
  visits the entries of the map, \<^verbatim>\<open>makeURL\<close> and \<^verbatim>\<open>makeBundleURL\<close> return the same URL,
  or the same error, and so the same URL string; the query of the URL is the pairs
  \<open>key=value\<close> of the map, the keys in sorted order, each value as \<^verbatim>\<open>%v\<close> formats it,
  both escaped, with \<^verbatim>\<open>&\<close> between them.  Two visits of one map are two lists of its
  entries, with distinct keys, one a permutation of the other.
\<close>

theorem makeURL_deterministic:
  assumes "distinct (map fst qs)" and "mset qs' = mset qs"
  shows "makeURL parse baseURL path qs' = makeURL parse baseURL path qs
       \<and> makeBundleURL parse baseURL bundleID op qs' = makeBundleURL parse baseURL bundleID op qs
       \<and> map_sum id URL_String (makeURL parse baseURL path qs')
           = map_sum id URL_String (makeURL parse baseURL path qs)
       \<and> map_sum id RawQuery (makeURL parse baseURL path qs')
           = map_sum (EOS ''parse'')
               (\<lambda>u. strings_Join (map (\<lambda>k. QueryEscape k @ ''='' @ QueryEscape (sprint_v (the (map_of qs k))))
                                   (sort (map fst qs))) ''&'')
               (parse (baseURL @ ''/'' @ path))"
proof -
  have s: "set qs' = set qs" using assms(2) by (rule mset_eq_setD)
  have "mset (map fst qs') = mset (map fst qs)" using assms(2) by simp
  then have d': "distinct (map fst qs')"
    using assms(1) mset_eq_imp_distinct_iff by blast
  have m: "map_of qs' = map_of qs"
    using map_of_inject_set [OF d' assms(1)] s by simp
  have "Values_Encode (collect qs' []) = Values_Encode (collect qs [])"
  proof (rule Values_Encode_cong)
    show "distinct (map fst (collect qs' []))" by (simp add: distinct_collect)
    show "distinct (map fst (collect qs []))" by (simp add: distinct_collect)
    show "fst ` set (collect qs' []) = fst ` set (collect qs [])"
      by (simp add: keys_collect s)
    show "map_index (collect qs' []) k = map_index (collect qs []) k" for k
      by (simp add: map_index_collect [OF d'] map_index_collect [OF assms(1)] m)
  qed
  then have same: "makeURL parse b p qs' = makeURL parse b p qs" for b p
    unfolding makeURL_collect by (rule arg_cong)
  have "map_sum id RawQuery (makeURL parse baseURL path qs)
           = map_sum (EOS ''parse'')
               (\<lambda>u. strings_Join (map (\<lambda>k. QueryEscape k @ ''='' @ QueryEscape (sprint_v (the (map_of qs k))))
                                   (sort (map fst qs))) ''&'')
               (parse (baseURL @ ''/'' @ path))"
    unfolding makeURL_collect Values_Encode_collect [OF assms(1)]
    by (cases "parse (baseURL @ ''/'' @ path)") simp_all
  then show ?thesis using same by (simp add: makeBundleURL_def)
qed

theorem makeURL_deterministic_witness:
  "distinct (map fst [(''path'', GString ''a/b.go''), (''line'', GInt 10), (''character'', GInt 3)])
   \<and> mset [(''character'', GInt 3), (''path'', GString ''a/b.go''), (''line'', GInt 10)]
       = mset [(''path'', GString ''a/b.go''), (''line'', GInt 10), (''character'', GInt 3)]
   \<and> makeURL parse_plain ''http://bm:3187'' ''dbs/7/definitions''
        [(''character'', GInt 3), (''path'', GString ''a/b.go''), (''line'', GInt 10)]
       = makeURL parse_plain ''http://bm:3187'' ''dbs/7/definitions''
        [(''path'', GString ''a/b.go''), (''line'', GInt 10), (''character'', GInt 3)]
   \<and> map_sum id URL_String (makeBundleURL parse_plain ''http://bm:3187'' 7 ''definitions''
        [(''path'', GString ''a/b.go''), (''line'', GInt 10), (''character'', GInt 3)])
       = Inr ''http://bm:3187/dbs/7/definitions?character=3&line=10&path=a%2Fb.go''
   \<and> map_sum id URL_String (makeBundleURL parse_plain ''http://bm:3187'' 7 ''definitions''
        [(''character'', GInt 3), (''path'', GString ''a/b.go''), (''line'', GInt 10)])
       = Inr ''http://bm:3187/dbs/7/definitions?character=3&line=10&path=a%2Fb.go''
   \<and> map_sum id RawQuery (makeURL parse_plain ''http://bm:3187'' ''dbs/7/definitions''
        [(''character'', GInt 3), (''path'', GString ''a/b.go''), (''line'', GInt 10)])
       = Inr ''character=3&line=10&path=a%2Fb.go''"
proof -
  have h1: "distinct (map fst [(''path'', GString ''a/b.go''), (''line'', GInt 10), (''character'', GInt 3)])"
    by simp
  have h2: "mset [(''character'', GInt 3), (''path'', GString ''a/b.go''), (''line'', GInt 10)]
       = mset [(''path'', GString ''a/b.go''), (''line'', GInt 10), (''character'', GInt 3)]"
    by (simp add: ac_simps)
  note t = makeURL_deterministic [OF h1 h2, of parse_plain "''http://bm:3187''" "''dbs/7/definitions''"
      7 "''definitions''"]
  have v: "map_sum id URL_String (makeBundleURL parse_plain ''http://bm:3187'' 7 ''definitions''
        [(''path'', GString ''a/b.go''), (''line'', GInt 10), (''character'', GInt 3)])
       = Inr ''http://bm:3187/dbs/7/definitions?character=3&line=10&path=a%2Fb.go''"
    by code_simp
  have v': "map_sum id URL_String (makeBundleURL parse_plain ''http://bm:3187'' 7 ''definitions''
        [(''character'', GInt 3), (''path'', GString ''a/b.go''), (''line'', GInt 10)])
       = Inr ''http://bm:3187/dbs/7/definitions?character=3&line=10&path=a%2Fb.go''"
    using t v by simp
  have q: "map_sum (EOS ''parse'')
               (\<lambda>u. strings_Join (map (\<lambda>k. QueryEscape k @ ''='' @ QueryEscape (sprint_v (the (map_of
                        [(''path'', GString ''a/b.go''), (''line'', GInt 10), (''character'', GInt 3)] k))))
                                   (sort (map fst [(''path'', GString ''a/b.go''), (''line'', GInt 10),
                                                   (''character'', GInt 3)]))) ''&'')
               (parse_plain (''http://bm:3187'' @ ''/'' @ ''dbs/7/definitions''))
       = Inr ''character=3&line=10&path=a%2Fb.go''"
    by code_simp
  note w = t [THEN conjunct2, THEN conjunct2, THEN conjunct2, unfolded q]
  show ?thesis
    by (intro conjI) (rule h1 h2 t [THEN conjunct1] v v' w)+
qed


subsection \<open>The observed client\<close>

text \<open>
  C4, as the claim states it, fails for \<^verbatim>\<open>BundleClient\<close>: the observed client at address
  2 wraps the client at address 1, and the bundle client it returns is bound to address 2,
  not the bundle client the wrapped client returns, which is bound to address 1.
\<close>

theorem observed_BundleClient_counterexample:
  "ObservedClient_BundleClient 2 (observed0 (net_sim 200 dump)) 7
     \<noteq> cb_BundleClient (oc_base (observed0 (net_sim 200 dump))) 7"
  by (simp add: ObservedClient_BundleClient_def observed0_def clientImpl_ClientBase_def
      clientImpl_BundleClient_def)

text \<open>
  C4, amended.  For \<^verbatim>\<open>SendUpload\<close>, \<^verbatim>\<open>GetUpload\<close>, \<^verbatim>\<open>SendDB\<close> and \<^verbatim>\<open>QueryBundle\<close>, every
  input and every wrapped client: the observed client calls the wrapped client once, with
  the context its tracer derives and, for \<^verbatim>\<open>QueryBundle\<close>, the address of the target; it
  returns the value and the error of that call as they are, and leaves the wrapped
  client's world as that call left it.  \<^verbatim>\<open>BundleClient\<close> does not ask the wrapped client:
  it returns a bundle client bound to the observed client itself.
\<close>

theorem observed_client_forwards:
  "fst (ObservedClient_SendUpload c ctx bundleID r s)
     = fst (cb_SendUpload (oc_base c) (tracer_New c ctx ''Client.SendUpload'' []) bundleID r (inner s))
   \<and> inner (snd (ObservedClient_SendUpload c ctx bundleID r s))
     = snd (cb_SendUpload (oc_base c) (tracer_New c ctx ''Client.SendUpload'' []) bundleID r (inner s))
   \<and> fst (ObservedClient_GetUpload c ctx bundleID dir s)
     = fst (cb_GetUpload (oc_base c) (tracer_New c ctx ''Client.GetUpload'' []) bundleID dir (inner s))
   \<and> inner (snd (ObservedClient_GetUpload c ctx bundleID dir s))
     = snd (cb_GetUpload (oc_base c) (tracer_New c ctx ''Client.GetUpload'' []) bundleID dir (inner s))
   \<and> fst (ObservedClient_SendDB c ctx bundleID r s)
     = fst (cb_SendDB (oc_base c) (tracer_New c ctx ''Client.SendDB'' []) bundleID r (inner s))
   \<and> inner (snd (ObservedClient_SendDB c ctx bundleID r s))
     = snd (cb_SendDB (oc_base c) (tracer_New c ctx ''Client.SendDB'' []) bundleID r (inner s))
   \<and> fst (ObservedClient_QueryBundle c ctx bundleID op qs tgt s)
     = fst (cb_QueryBundle (oc_base c) (tracer_New c ctx ''Client.QueryBundle'' []) bundleID op qs
         (AddrOf tgt) (inner s))
   \<and> inner (snd (ObservedClient_QueryBundle c ctx bundleID op qs tgt s))
     = snd (cb_QueryBundle (oc_base c) (tracer_New c ctx ''Client.QueryBundle'' []) bundleID op qs
         (AddrOf tgt) (inner s))
   \<and> bc_base (ObservedClient_BundleClient self c bundleID) = self
   \<and> bc_bundleID (ObservedClient_BundleClient self c bundleID) = bundleID"
  by (simp add: ObservedClient_SendUpload_def ObservedClient_GetUpload_def ObservedClient_SendDB_def
      ObservedClient_QueryBundle_def ObservedClient_BundleClient_def Let_def split: prod.splits)

theorem observed_client_forwards_witness:
  "fst (ObservedClient_SendUpload (observed0 (net_sim 503 dump)) [] 7 ''lsif'' \<lparr>inner = cw0, tele = tele0\<rparr>)
     = Some (Errorf ''unexpected status code 503'')
   \<and> fst (SendUpload (net_sim 503 dump) client0 [''Client.SendUpload''] 7 ''lsif'' cw0)
     = Some (Errorf ''unexpected status code 503'')
   \<and> fst (ObservedClient_GetUpload (observed0 (net_sim 200 dump)) [] 7 ''/tmp'' \<lparr>inner = cw0, tele = tele0\<rparr>)
     = (''/tmp/0b5c3a1e'', None)
   \<and> fst (GetUpload (net_sim 200 dump) client0 [''Client.GetUpload''] 7 ''/tmp'' cw0)
     = (''/tmp/0b5c3a1e'', None)
   \<and> bc_base (ObservedClient_BundleClient 2 (observed0 (net_sim 200 dump)) 7) = 2"
proof -
  have b: "oc_base (observed0 nt) = clientImpl_ClientBase nt 1 client0"
    and n: "tracer_New (observed0 nt) ctx family title = family # ctx" for nt ctx family title
    by (simp_all add: observed0_def)
  have s: "cb_SendUpload (clientImpl_ClientBase nt self client0) = SendUpload nt client0"
    and g: "cb_GetUpload (clientImpl_ClientBase nt self client0) = GetUpload nt client0" for nt self
    by (simp_all add: clientImpl_ClientBase_def)
  have v1: "fst (SendUpload (net_sim 503 dump) client0 [''Client.SendUpload''] 7 ''lsif'' cw0)
     = Some (Errorf ''unexpected status code 503'')"
    and v2: "fst (GetUpload (net_sim 200 dump) client0 [''Client.GetUpload''] 7 ''/tmp'' cw0)
     = (''/tmp/0b5c3a1e'', None)"
    by code_simp+
  note t1 = observed_client_forwards [of "observed0 (net_sim 503 dump)" "[]" 7 "''lsif''"
      "\<lparr>inner = cw0, tele = tele0\<rparr>" "''/tmp''" "[]" "[]" "Dest 0" 2]
  note t2 = observed_client_forwards [of "observed0 (net_sim 200 dump)" "[]" 7 "''lsif''"
      "\<lparr>inner = cw0, tele = tele0\<rparr>" "''/tmp''" "[]" "[]" "Dest 0" 2]
  show ?thesis using t1 t2 v1 v2 by (simp add: b n s g)
qed

end
